theory Spec2Isabelle
  imports Complex_Main
begin

section \<open>Errors\<close>

text \<open>
  The Python exceptions that the modelled functions can raise.  A function that may raise
  returns \<open>py_error + 'a\<close>, with \<open>Inl\<close> for the exception.  \<open>SimulatorError\<close> stands for
  any exception coming out of the external simulation or fitting library.
\<close>

datatype py_error = IndexError | KeyError | OverflowError | UnboundLocalError | LinAlgError
  | ValueError | AttributeError | TypeError | SimulatorError string

section \<open>\<open>_get_array_indexes\<close> (data_analysis_tools.py)\<close>

text \<open>
  \<^verbatim>\<open>indexes = np.zeros(len(sweep_lengths), dtype=int)\<close> is an array of 64-bit integers.
  \<^verbatim>\<open>indexes[-1] = index\<close> raises IndexError on the empty array and OverflowError when the
  Python integer does not fit a 64-bit cell.  The loop runs \<open>i\<close> from \<open>len - 2\<close> down to \<open>0\<close>;
  \<open>carry_loop k\<close> is the part of the loop that still has to run \<open>i = k - 1, \<dots>, 0\<close>.
  Floor division is \<open>div\<close> on \<open>int\<close>.  After the checked store every value written is
  bounded by \<open>index\<close> as long as the lengths are positive, so the cells are read as \<open>int\<close>.
\<close>

fun carry_loop :: "nat \<Rightarrow> int list \<Rightarrow> int list \<Rightarrow> int list" where
  "carry_loop 0 sweep_lengths indexes = indexes"
| "carry_loop (Suc i) sweep_lengths indexes =
     (if indexes ! Suc i \<ge> sweep_lengths ! Suc i then
        let indexes1 = indexes[i := indexes ! Suc i div sweep_lengths ! Suc i];
            indexes2 = indexes1[Suc i := indexes1 ! Suc i - indexes1 ! i * sweep_lengths ! Suc i]
        in carry_loop i sweep_lengths indexes2
      else carry_loop i sweep_lengths indexes)"

definition int64_range :: "int \<Rightarrow> bool" where
  "int64_range v \<longleftrightarrow> - (2 ^ 63) \<le> v \<and> v < 2 ^ 63"

definition get_array_indexes :: "int \<Rightarrow> int list \<Rightarrow> py_error + int list" where
  "get_array_indexes index sweep_lengths =
     (let n = length sweep_lengths in
      if n = 0 then Inl IndexError
      else if \<not> int64_range index then Inl OverflowError
      else Inr (carry_loop (n - 1) sweep_lengths ((replicate n 0)[n - 1 := index])))"

text \<open>
  The row-major (C order) flat index of a multi-index, in the words of the specification:
  the sum over \<open>i\<close> of \<open>t[i]\<close> times the product of \<open>sweep_lengths[i+1:]\<close>; and the
  multi-indexes that lie inside an array of shape \<open>sweep_lengths\<close>.
\<close>

definition row_major_sum :: "int list \<Rightarrow> int list \<Rightarrow> int" where
  "row_major_sum t sweep_lengths =
     (\<Sum>i<length sweep_lengths. t ! i * prod_list (drop (Suc i) sweep_lengths))"

definition in_shape :: "int list \<Rightarrow> int list \<Rightarrow> bool" where
  "in_shape t sweep_lengths \<longleftrightarrow>
     length t = length sweep_lengths \<and>
     (\<forall>i<length sweep_lengths. 0 \<le> t ! i \<and> t ! i < sweep_lengths ! i)"

section \<open>Python strings, loops and dictionaries\<close>

text \<open>
  \<^verbatim>\<open>str(i)\<close> for a non-negative integer, as used in the snapshot labels
  \<^verbatim>\<open>'dm_' + str(current_cycle)\<close> and \<^verbatim>\<open>'snap_' + str(i+1)\<close>.
\<close>

definition digit_char :: "nat \<Rightarrow> char" where
  "digit_char d = ''0123456789'' ! d"

fun str_nat :: "nat \<Rightarrow> string" where
  "str_nat n = (if n < 10 then [digit_char n] else str_nat (n div 10) @ [digit_char (n mod 10)])"

declare str_nat.simps [simp del]

text \<open>
  A loop \<^verbatim>\<open>for i in \<dots>: fidelities.append(f(i))\<close> in which \<open>f\<close> may raise, and a dictionary
  read \<^verbatim>\<open>d[key]\<close>, which raises KeyError on a missing key.
\<close>

fun append_each :: "(nat \<Rightarrow> py_error + 'a) \<Rightarrow> nat list \<Rightarrow> 'a list \<Rightarrow> py_error + 'a list" where
  "append_each f [] acc = Inr acc"
| "append_each f (i # rest) acc =
     (case f i of Inl e \<Rightarrow> Inl e | Inr v \<Rightarrow> append_each f rest (acc @ [v]))"

definition lookup :: "('k \<rightharpoonup> 'v) \<Rightarrow> 'k \<Rightarrow> py_error + 'v" where
  "lookup d key = (case d key of None \<Rightarrow> Inl KeyError | Some v \<Rightarrow> Inr v)"

section \<open>Values shared by the analysis functions\<close>

text \<open>
  Floating-point numbers are read as real numbers throughout: the claims are about which
  values are computed, stored and returned, not about rounding.  A snapshot-time dictionary
  keeps its insertion order (\<^verbatim>\<open>list(time.values())\<close> depends on it), so it is an association
  list.  \<open>pyval\<close> are the keyword-argument values that the functions inspect.
\<close>

type_synonym time_dict = "(string \<times> real) list"

datatype pyval = PyFloat real | PyInt int | PyStr string | PyBool bool | PyNone

type_synonym kwargs = "string \<rightharpoonup> pyval"

text \<open>
  \<^verbatim>\<open>GateTimes(single_qubit_default, two_qubit_default, custom_gate_times)\<close>: the class lives in
  \<^verbatim>\<open>custom_noise_models.py\<close>; only its constructor arguments are used here (their names are
  those of the keyword call in \<^verbatim>\<open>scale_gate_times\<close>).
\<close>

record GateTimes =
  single_qubit_default :: real
  two_qubit_default :: real
  custom_gate_times :: "(string \<times> real) list"

text \<open>
  The three shapes of value that \<^verbatim>\<open>fidelity_from_scratch\<close> returns:
  \<^verbatim>\<open>(fidelities, time)\<close>, \<^verbatim>\<open>(fidelities, select_counts)\<close> and \<^verbatim>\<open>[]\<close>.
\<close>

datatype ffs_result =
    Fid_time "real list" time_dict
  | Fid_counts "real list" "int list"
  | Empty_list

section \<open>\<open>monoExp\<close>\<close>

text \<open>
  \<^verbatim>\<open>return (A-c)* np.exp(-t/T) + c\<close>.  The function is only handed to \<^verbatim>\<open>curve_fit\<close> as
  the model to fit; nothing below depends on its values, which the code computes in
  binary64.
\<close>

definition monoExp :: "real \<Rightarrow> real \<Rightarrow> real \<Rightarrow> real \<Rightarrow> real" where
  "monoExp t T c A = (A - c) * exp (- t / T) + c"

section \<open>\<open>sweep_parameter_space\<close>\<close>

text \<open>
  A NumPy array of floats is its shape and its cells, read by multi-index.
  \<^verbatim>\<open>a[t] = v\<close> with a tuple \<open>t\<close> raises IndexError when \<open>t\<close> has more entries than the array
  has dimensions or an entry lies outside \<open>[-d, d)\<close>; negative entries count from the end; a
  tuple shorter than the shape assigns every cell below that prefix.
\<close>

record ndarray =
  shape :: "int list"
  cells :: "int list \<Rightarrow> real"

definition np_zeros :: "int list \<Rightarrow> ndarray" where
  "np_zeros sh = \<lparr>shape = sh, cells = (\<lambda>_. 0)\<rparr>"

definition normalize_index :: "int list \<Rightarrow> int list \<Rightarrow> int list" where
  "normalize_index sh t = map2 (\<lambda>i d. if i < 0 then i + d else i) t sh"

definition setitem :: "ndarray \<Rightarrow> int list \<Rightarrow> real \<Rightarrow> py_error + ndarray" where
  "setitem a t v =
     (if length t > length (shape a) then Inl IndexError
      else if \<exists>(i, d) \<in> set (zip t (shape a)). i < - d \<or> d \<le> i then Inl IndexError
      else Inr (a\<lparr>cells := (\<lambda>u. if take (length t) u = normalize_index (shape a) t then v
                                 else cells a u)\<rparr>))"

text \<open>
  The calls that leave the function: to one of the three simulation routines, to
  \<^verbatim>\<open>scipy.optimize.curve_fit(monoExp, \<dots>)\<close> and to \<^verbatim>\<open>np.save\<close>.  Each call is logged with
  the value of the loop counter \<^verbatim>\<open>index\<close> at the time of the call.
\<close>

datatype routine = Fid_single_qubit | Perfect_stab_circuit | Fidelity_from_scratch

datatype call =
    Simulation routine int int real real GateTimes
  | Curve_fit_monoExp "real list" "real list" "real \<times> real \<times> real"
  | Np_save string ndarray

text \<open>
  \<^verbatim>\<open>fid_single_qubit\<close> and \<^verbatim>\<open>fidelity_from_scratch\<close> run the external quantum simulator
  and \<^verbatim>\<open>curve_fit\<close> is SciPy's; they are parameters of the model, and each may raise.  The
  arguments are the ones that \<^verbatim>\<open>sweep_parameter_space\<close> passes:
  \<^verbatim>\<open>fid_single_qubit(n_cycles, n_shots, T1=, T2=, gate_times=, **kwargs)\<close>,
  \<^verbatim>\<open>fidelity_from_scratch(n_cycles, n_shots, T1=, T2=, gate_times=, **kwargs)\<close> and
  \<^verbatim>\<open>curve_fit(monoExp, time_list, fid[1:], p0)\<close>, which returns the fitted parameters and
  their covariance matrix.  For \<^verbatim>\<open>perfect_stab_circuit\<close>, which is modelled below, the
  parameters are the gate-time read \<^verbatim>\<open>full_gate_times[name]\<close> and the run of its circuit:
  \<open>perfect_stab_results\<close> builds the circuit, executes it with \<^verbatim>\<open>shots=n_shots\<close> and gives
  the expectation values of \<^verbatim>\<open>results.data()\<close> by label.
\<close>

record sweep_env =
  fid_single_qubit_routine ::
    "int \<Rightarrow> int \<Rightarrow> real \<Rightarrow> real \<Rightarrow> GateTimes \<Rightarrow> kwargs \<Rightarrow> py_error + real list \<times> time_dict"
  gate_time :: "GateTimes \<Rightarrow> string \<Rightarrow> real"
  perfect_stab_results ::
    "int \<Rightarrow> int \<Rightarrow> GateTimes \<Rightarrow> real \<Rightarrow> real \<Rightarrow> py_error + (string \<rightharpoonup> real)"
  fidelity_from_scratch_routine ::
    "int \<Rightarrow> int \<Rightarrow> real \<Rightarrow> real \<Rightarrow> GateTimes \<Rightarrow> kwargs \<Rightarrow> py_error + ffs_result"
  curve_fit ::
    "(real \<Rightarrow> real \<Rightarrow> real \<Rightarrow> real \<Rightarrow> real) \<Rightarrow> real list \<Rightarrow> real list \<Rightarrow> real \<times> real \<times> real
       \<Rightarrow> py_error + real list \<times> real list list"

text \<open>
  \<^verbatim>\<open>perfect_stab_circuit(n_cycles, n_shots, gate_times=gate_times, T1=, T2=, reset=True,
  snapshot_type='exp')\<close>, as the sweep calls it: \<^verbatim>\<open>gate_times\<close> is a \<^verbatim>\<open>GateTimes\<close> object,
  so \<^verbatim>\<open>full_gate_times = gate_times\<close>.  The dictionary \<^verbatim>\<open>time\<close> gets one entry
  \<^verbatim>\<open>time['exp_' + str(i)] = i*cycle_time\<close> for each \<open>i\<close> in \<^verbatim>\<open>range(n_cycles+1)\<close>, and
  \<^verbatim>\<open>fidelities\<close> one entry \<^verbatim>\<open>results.data()['exp_' + str(current_cycle)]\<close> for each of the
  same cycles: both have \<open>n_cycles + 1\<close> entries, and \<open>time\<close> has no entry after the last
  snapshot.
\<close>

definition perfect_stab_circuit ::
  "sweep_env \<Rightarrow> int \<Rightarrow> int \<Rightarrow> GateTimes \<Rightarrow> real \<Rightarrow> real \<Rightarrow> py_error + real list \<times> time_dict" where
  "perfect_stab_circuit env n_cycles n_shots full_gate_times T1 T2 =
     (let two_qubit_gate_time = gate_time env full_gate_times ''cz'';
          single_qubit_gate_time = gate_time env full_gate_times ''x'';
          measure_time = gate_time env full_gate_times ''measure'';
          feedback_time = gate_time env full_gate_times ''feedback'';
          cycle_time = 8 * single_qubit_gate_time + 16 * two_qubit_gate_time + 4 * measure_time
                       + feedback_time;
          time = map (\<lambda>i. (''exp_'' @ str_nat i, real i * cycle_time)) [0..<nat (n_cycles + 1)]
      in (case perfect_stab_results env n_cycles n_shots full_gate_times T1 T2 of
            Inl e \<Rightarrow> Inl e
          | Inr data \<Rightarrow>
              (case append_each (\<lambda>current_cycle. lookup data (''exp_'' @ str_nat current_cycle))
                      [0..<nat (n_cycles + 1)] [] of
                 Inl e \<Rightarrow> Inl e
               | Inr fidelities \<Rightarrow> Inr (fidelities, time))))"

text \<open>
  \<^verbatim>\<open>scipy.optimize.curve_fit(f, xdata, ydata, p0)\<close> with three parameters.  Before any
  fitting it raises when \<open>ydata\<close> is empty (ValueError), when \<open>f(xdata) - ydata\<close> cannot be
  formed because the two lengths differ and neither is 1 (NumPy broadcasting, ValueError),
  and when there are fewer residuals than parameters (TypeError).  Otherwise the outcome is
  the parameter \<open>curve_fit\<close>.
\<close>

definition scipy_curve_fit ::
  "sweep_env \<Rightarrow> (real \<Rightarrow> real \<Rightarrow> real \<Rightarrow> real \<Rightarrow> real) \<Rightarrow> real list \<Rightarrow> real list
     \<Rightarrow> real \<times> real \<times> real \<Rightarrow> py_error + real list \<times> real list list" where
  "scipy_curve_fit env f xdata ydata p0 =
     (let n = length xdata; m = length ydata in
      if m = 0 then Inl ValueError
      else if n \<noteq> m \<and> n \<noteq> 1 \<and> m \<noteq> 1 then Inl ValueError
      else if (if m = 1 then n else m) < 3 then Inl TypeError
      else curve_fit env f xdata ydata p0)"

text \<open>
  A noise parameter is a number or a list of numbers;
  \<^verbatim>\<open>[param] if not isinstance(param, list) else param\<close>.
\<close>

datatype param = Scalar real | ParamList "real list"

fun as_list :: "param \<Rightarrow> real list" where
  "as_list (Scalar x) = [x]"
| "as_list (ParamList xs) = xs"

text \<open>\<^verbatim>\<open>theta == np.pi/2\<close> on a keyword-argument value.\<close>

fun py_eq_float :: "pyval \<Rightarrow> real \<Rightarrow> bool" where
  "py_eq_float (PyFloat x) r = (x = r)"
| "py_eq_float (PyInt i) r = (real_of_int i = r)"
| "py_eq_float (PyBool b) r = ((if b then 1 else 0) = r)"
| "py_eq_float (PyStr s) r = False"
| "py_eq_float PyNone r = False"

text \<open>
  \<^verbatim>\<open>fid, time = fidelity_from_scratch(\<dots>)\<close>: the empty list cannot be unpacked
  (ValueError), and the list of post-selection counts has no \<^verbatim>\<open>values()\<close> when
  \<^verbatim>\<open>list(time.values())\<close> is reached (AttributeError).
\<close>

fun unpack_fid_time :: "ffs_result \<Rightarrow> py_error + real list \<times> time_dict" where
  "unpack_fid_time (Fid_time fid time) = Inr (fid, time)"
| "unpack_fid_time (Fid_counts fid select_counts) = Inl AttributeError"
| "unpack_fid_time Empty_list = Inl ValueError"

text \<open>
  The arguments that stay fixed during the sweep.  \<^verbatim>\<open>theta\<close> and \<^verbatim>\<open>phi\<close> are read from
  \<^verbatim>\<open>kwargs\<close> inside one \<^verbatim>\<open>try\<close>: when either key is missing both fall back to \<open>0.\<close>
\<close>

record sweep_args =
  arg_n_cycles :: int
  arg_n_shots :: int
  arg_single_qubit :: bool
  arg_perfect_stab :: bool
  arg_kwargs :: kwargs
  arg_theta :: pyval
  arg_phi :: pyval

definition theta_phi :: "kwargs \<Rightarrow> pyval \<times> pyval" where
  "theta_phi kwargs =
     (case (kwargs ''theta'', kwargs ''phi'') of
        (Some th, Some ph) \<Rightarrow> (th, ph)
      | _ \<Rightarrow> (PyFloat 0, PyFloat 0))"

definition make_args :: "int \<Rightarrow> int \<Rightarrow> bool \<Rightarrow> bool \<Rightarrow> kwargs \<Rightarrow> sweep_args" where
  "make_args n_cycles n_shots single_qubit perfect_stab kwargs =
     \<lparr>arg_n_cycles = n_cycles, arg_n_shots = n_shots, arg_single_qubit = single_qubit,
      arg_perfect_stab = perfect_stab, arg_kwargs = kwargs,
      arg_theta = fst (theta_phi kwargs), arg_phi = snd (theta_phi kwargs)\<rparr>"

text \<open>
  \<^verbatim>\<open>GateTimes(params[2], params[3], {'u1': 0, 'z': 0, 'measure': params[4], 'feedback': params[5]})\<close>.
  \<open>params\<close> is one element of the Cartesian product of six lists and has six entries.
\<close>

definition make_gate_times :: "real list \<Rightarrow> GateTimes" where
  "make_gate_times params =
     \<lparr>single_qubit_default = params ! 2, two_qubit_default = params ! 3,
      custom_gate_times = [(''u1'', 0), (''z'', 0), (''measure'', params ! 4),
                           (''feedback'', params ! 5)]\<rparr>"

text \<open>
  The simulation of one combination: the \<^verbatim>\<open>if single_qubit / elif perfect_stab / else\<close> chain,
  with the rescaling \<^verbatim>\<open>fid[i] = 2.*fid[i] - 1.\<close> of the single-qubit branch.  Each branch
  gives the call it makes, for the log, together with the outcome of that call.
\<close>

definition simulate_logged ::
  "sweep_env \<Rightarrow> sweep_args \<Rightarrow> real list \<Rightarrow> call \<times> (py_error + real list \<times> time_dict)" where
  "simulate_logged env a params =
     (let gate_times = make_gate_times params in
      if arg_single_qubit a then
        (Simulation Fid_single_qubit (arg_n_cycles a) (arg_n_shots a) (params ! 0) (params ! 1)
           gate_times,
         case fid_single_qubit_routine env (arg_n_cycles a) (arg_n_shots a) (params ! 0) (params ! 1)
                gate_times (arg_kwargs a) of
           Inl e \<Rightarrow> Inl e
         | Inr (fid, time) \<Rightarrow>
             if py_eq_float (arg_theta a) (pi / 2) \<and> py_eq_float (arg_phi a) (pi / 2)
             then Inr (map (\<lambda>f. 2 * f - 1) fid, time)
             else Inr (fid, time))
      else if arg_perfect_stab a then
        (Simulation Perfect_stab_circuit (arg_n_cycles a) (arg_n_shots a) (params ! 0) (params ! 1)
           gate_times,
         perfect_stab_circuit env (arg_n_cycles a) (arg_n_shots a) gate_times
           (params ! 0) (params ! 1))
      else
        (Simulation Fidelity_from_scratch (arg_n_cycles a) (arg_n_shots a) (params ! 0) (params ! 1)
           gate_times,
         case fidelity_from_scratch_routine env (arg_n_cycles a) (arg_n_shots a) (params ! 0)
                (params ! 1) gate_times (arg_kwargs a) of
           Inl e \<Rightarrow> Inl e
         | Inr r \<Rightarrow> unpack_fid_time r))"

definition simulate :: "sweep_env \<Rightarrow> sweep_args \<Rightarrow> real list \<Rightarrow> py_error + real list \<times> time_dict" where
  "simulate env a params = snd (simulate_logged env a params)"

text \<open>
  From the fidelities to the fit: \<^verbatim>\<open>time_list = list(time.values())[1:-1]\<close>,
  \<^verbatim>\<open>p0 = (params[0], 0, 0.9)\<close>, \<^verbatim>\<open>pars, cov = curve_fit(monoExp, time_list, fid[1:], p0)\<close>
  and \<^verbatim>\<open>T, c, A = pars\<close>.  The result keeps the arguments of the fit, the decay constant
  \<open>T\<close> and the covariance matrix; the calls are listed in the order they are made, up to
  the one that raises.
\<close>

definition fit_combination_logged ::
  "sweep_env \<Rightarrow> sweep_args \<Rightarrow> real list \<Rightarrow>
     call list \<times>
     (py_error + (real list \<times> real list \<times> real \<times> real \<times> real) \<times> (real \<times> real list list))" where
  "fit_combination_logged env a params =
     (let (simulation, outcome) = simulate_logged env a params in
      case outcome of
        Inl e \<Rightarrow> ([simulation], Inl e)
      | Inr (fid, time) \<Rightarrow>
          let time_list = butlast (tl (map snd time));
              p0 = (params ! 0, 0, 9 / 10);
              fit = Curve_fit_monoExp time_list (tl fid) p0
          in (case scipy_curve_fit env monoExp time_list (tl fid) p0 of
                Inl e \<Rightarrow> ([simulation, fit], Inl e)
              | Inr (pars, cov) \<Rightarrow>
                  (case pars of
                     [T, c, A] \<Rightarrow> ([simulation, fit], Inr ((time_list, tl fid, p0), (T, cov)))
                   | _ \<Rightarrow> ([simulation, fit], Inl ValueError))))"

definition fit_combination ::
  "sweep_env \<Rightarrow> sweep_args \<Rightarrow> real list \<Rightarrow>
     py_error + (real list \<times> real list \<times> real \<times> real \<times> real) \<times> (real \<times> real list list)" where
  "fit_combination env a params = snd (fit_combination_logged env a params)"

text \<open>\<^verbatim>\<open>cov[0][0]\<close>\<close>

definition cov00 :: "real list list \<Rightarrow> py_error + real" where
  "cov00 cov =
     (case cov of
        [] \<Rightarrow> Inl IndexError
      | row # _ \<Rightarrow> (case row of [] \<Rightarrow> Inl IndexError | v # _ \<Rightarrow> Inr v))"

text \<open>
  The variables of the loop: the counter \<^verbatim>\<open>index\<close>, the two result arrays, and the log of
  outside calls.
\<close>

record sweep_state =
  st_index :: int
  st_error_array :: ndarray
  st_var_array :: ndarray
  st_calls :: "(int \<times> call) list"

text \<open>\<^verbatim>\<open># Skip cases where T2 > 2*T1\<close>: \<^verbatim>\<open>if params[1] > 2*params[0]\<close>\<close>

definition skip_case :: "real list \<Rightarrow> bool" where
  "skip_case params \<longleftrightarrow> params ! 1 > 2 * params ! 0"

text \<open>
  One iteration of \<^verbatim>\<open>for params in itertools.product(*noise_parameters)\<close>.  When the
  iteration raises, the variables keep what they held at that moment: the outcome is the
  exception with that state.
\<close>

definition sweep_step ::
  "sweep_env \<Rightarrow> sweep_args \<Rightarrow> int list \<Rightarrow> real list \<Rightarrow> sweep_state
     \<Rightarrow> py_error \<times> sweep_state + sweep_state" where
  "sweep_step env a sweep_lengths params s =
     (if skip_case params then Inr (s\<lparr>st_index := st_index s + 1\<rparr>)
      else
        (let (made, outcome) = fit_combination_logged env a params;
             s1 = s\<lparr>st_calls := st_calls s @ map (Pair (st_index s)) made\<rparr>
         in case outcome of
              Inl e \<Rightarrow> Inl (e, s1)
            | Inr ((time_list, fids, p0), (T, cov)) \<Rightarrow>
                (case get_array_indexes (st_index s) sweep_lengths of
                   Inl e \<Rightarrow> Inl (e, s1)
                 | Inr array_indexes \<Rightarrow>
                     (case setitem (st_error_array s) array_indexes T of
                        Inl e \<Rightarrow> Inl (e, s1)
                      | Inr ea \<Rightarrow>
                          (case cov00 cov of
                             Inl e \<Rightarrow> Inl (e, s1\<lparr>st_error_array := ea\<rparr>)
                           | Inr v \<Rightarrow>
                               (case setitem (st_var_array s) array_indexes v of
                                  Inl e \<Rightarrow> Inl (e, s1\<lparr>st_error_array := ea\<rparr>)
                                | Inr va \<Rightarrow>
                                    Inr (s1\<lparr>st_index := st_index s + 1, st_error_array := ea,
                                            st_var_array := va\<rparr>)))))))"

text \<open>The \<^verbatim>\<open>for\<close> loop: an exception in one iteration ends the function.\<close>

fun sweep_loop ::
  "(real list \<Rightarrow> sweep_state \<Rightarrow> py_error \<times> sweep_state + sweep_state) \<Rightarrow> real list list
     \<Rightarrow> sweep_state \<Rightarrow> py_error \<times> sweep_state + sweep_state" where
  "sweep_loop step [] s = Inr s"
| "sweep_loop step (params # rest) s =
     (case step params s of Inl e \<Rightarrow> Inl e | Inr s' \<Rightarrow> sweep_loop step rest s')"

definition noise_parameter_lists ::
  "param \<Rightarrow> param \<Rightarrow> param \<Rightarrow> param \<Rightarrow> param \<Rightarrow> param \<Rightarrow> real list list" where
  "noise_parameter_lists T1 T2 single_qubit_gate_time two_qubit_gate_time measure_time feedback_time =
     map as_list [T1, T2, single_qubit_gate_time, two_qubit_gate_time, measure_time, feedback_time]"

definition lengths_of :: "real list list \<Rightarrow> int list" where
  "lengths_of noise_parameters = map (\<lambda>param. int (length param)) noise_parameters"

text \<open>
  \<^verbatim>\<open>itertools.product\<close> enumerates the combinations with the last list varying fastest, as
  \<open>product_lists\<close> does.  The function returns the two arrays; the returned state also holds
  the final counter and the log.  When it raises, the outcome is the exception with the
  state of the loop at that moment.  The unused argument \<^verbatim>\<open>time_axis\<close> is left out.
\<close>

definition sweep_parameter_space ::
  "sweep_env \<Rightarrow> param \<Rightarrow> param \<Rightarrow> param \<Rightarrow> param \<Rightarrow> param \<Rightarrow> param \<Rightarrow> int \<Rightarrow> int \<Rightarrow> bool
     \<Rightarrow> string option \<Rightarrow> bool \<Rightarrow> kwargs \<Rightarrow> py_error \<times> sweep_state + sweep_state" where
  "sweep_parameter_space env T1 T2 single_qubit_gate_time two_qubit_gate_time measure_time
       feedback_time n_cycles n_shots single_qubit save perfect_stab kwargs =
     (let a = make_args n_cycles n_shots single_qubit perfect_stab kwargs;
          noise_parameters = noise_parameter_lists T1 T2 single_qubit_gate_time
                               two_qubit_gate_time measure_time feedback_time;
          sweep_lengths = lengths_of noise_parameters;
          s0 = \<lparr>st_index = 0, st_error_array = np_zeros sweep_lengths,
                st_var_array = np_zeros sweep_lengths, st_calls = []\<rparr>
      in (case sweep_loop (sweep_step env a sweep_lengths) (product_lists noise_parameters) s0 of
            Inl e \<Rightarrow> Inl e
          | Inr s \<Rightarrow>
              (case save of
                 None \<Rightarrow> Inr s
               | Some name \<Rightarrow>
                   Inr (s\<lparr>st_calls := st_calls s @
                            [(st_index s, Np_save name (st_error_array s)),
                             (st_index s, Np_save (name @ ''_var'') (st_var_array s))]\<rparr>))))"

text \<open>
  The combination at a multi-index of the parameter grid, and the calls that the iteration
  with counter \<open>k\<close> makes for a combination.
\<close>

definition combination_at :: "real list list \<Rightarrow> int list \<Rightarrow> real list" where
  "combination_at noise_parameters t = map2 (\<lambda>param i. param ! nat i) noise_parameters t"

definition combination_calls :: "sweep_env \<Rightarrow> sweep_args \<Rightarrow> int \<Rightarrow> real list \<Rightarrow> (int \<times> call) list" where
  "combination_calls env a k params =
     (if skip_case params then []
      else map (Pair k) (fst (fit_combination_logged env a params)))"

text \<open>
  The state in which a run ended, by return or by exception, and whether the loop got as
  far as the iteration with counter \<open>k\<close>: it did when the function returned, and when the
  counter had reached \<open>k\<close> at the time of the exception.
\<close>

definition final_state :: "py_error \<times> sweep_state + sweep_state \<Rightarrow> sweep_state" where
  "final_state r = (case r of Inl (e, s) \<Rightarrow> s | Inr s \<Rightarrow> s)"

definition loop_reached :: "py_error \<times> sweep_state + sweep_state \<Rightarrow> nat \<Rightarrow> bool" where
  "loop_reached r k = (case r of Inl (e, s) \<Rightarrow> int k \<le> st_index s | Inr s \<Rightarrow> True)"

text \<open>
  Stub environments for running the model on concrete inputs.  In the second one
  \<^verbatim>\<open>fidelity_from_scratch\<close> returns what it returns for \<^verbatim>\<open>data_process_type='post_select'\<close>.
\<close>

definition example_env :: sweep_env where
  "example_env = \<lparr>
     fid_single_qubit_routine = (\<lambda>n_cycles n_shots T1 T2 gate_times kwargs.
        Inr ([1, 1 / 2, 1 / 4, 1 / 8],
             [(''start'', 0), (''snap_1'', 1), (''snap_2'', 2), (''snap_3'', 3), (''end'', 4)])),
     gate_time = (\<lambda>g name. if name = ''x'' then single_qubit_default g
                            else if name = ''cz'' then two_qubit_default g
                            else (case map_of (custom_gate_times g) name of Some v \<Rightarrow> v | None \<Rightarrow> 0)),
     perfect_stab_results = (\<lambda>n_cycles n_shots gate_times T1 T2.
        Inr [''exp_0'' \<mapsto> 1, ''exp_1'' \<mapsto> 1 / 2, ''exp_2'' \<mapsto> 1 / 4, ''exp_3'' \<mapsto> 1 / 8]),
     fidelity_from_scratch_routine = (\<lambda>n_cycles n_shots T1 T2 gate_times kwargs.
        Inr (Fid_time [1, T1, T2, 0]
               [(''dm_0'', 0), (''dm_1'', 1), (''dm_2'', 2), (''dm_3'', 3), (''end'', 4)])),
     curve_fit = (\<lambda>f xdata ydata (T, c, A).
        Inr ([T + sum_list ydata, c, A], [[sum_list xdata, 0, 0], [0, 1, 0], [0, 0, 1]]))\<rparr>"

definition post_select_env :: sweep_env where
  "post_select_env = example_env\<lparr>fidelity_from_scratch_routine :=
     (\<lambda>n_cycles n_shots T1 T2 gate_times kwargs. Inr (Fid_counts [1, 1 / 2, 1 / 4, 1 / 8] [4, 3, 2, 1]))\<rparr>"

section \<open>The simulator interface\<close>

text \<open>
  The \<^verbatim>\<open>gate_times\<close> argument is a dict, a \<^verbatim>\<open>GateTimes\<close> object or anything else.
\<close>

datatype gate_times_arg = GT_dict "(string \<times> real) list" | GT_object GateTimes | GT_other

text \<open>
  What a call does besides returning: \<^verbatim>\<open>warnings.warn\<close>, \<^verbatim>\<open>print\<close>, a successful
  \<^verbatim>\<open>simulator.set_option\<close> and the run of a circuit with \<^verbatim>\<open>execute(\<dots>, shots=n_shots)\<close>.
  (\<^verbatim>\<open>warnings\<close> is taken to be in scope through the module's star imports.)
\<close>

datatype effect = Warn string | Print string | Set_option string string | Executed int

text \<open>
  A value stored under a label of \<^verbatim>\<open>results.data()\<close> is a number (an expectation value) or
  a quantum state (a density matrix); a list of fidelities holds such values.
  \<^verbatim>\<open>results.get_counts()\<close> is the other part of a result that the code reads.
\<close>

datatype 'q pyvalue = Float real | Quantum 'q

record 'q results =
  res_data :: "string \<rightharpoonup> 'q pyvalue"
  res_counts :: "(string \<times> int) list"

text \<open>The instructions that \<^verbatim>\<open>get_idle_single_qubit\<close> puts on its one-qubit circuit.\<close>

datatype instr =
    Rx real
  | Rz real
  | Save_density_matrix string
  | Save_expectation_value string string
  | Thermal_relaxation real real real

text \<open>
  The registers and the arguments of \<^verbatim>\<open>get_full_stabilizer_circuit\<close>.  The register objects
  are given by their constructor arguments; \<open>ca_more\<close> holds the remaining keyword arguments.
\<close>

record classical_register_args =
  cr_n_cycles :: int
  cr_reset :: "bool option"
  cr_recovery :: "bool option"
  cr_flag :: bool

record stabilizer_registers =
  reg_qb :: "nat \<times> string"
  reg_an :: "nat \<times> string"
  reg_cr :: classical_register_args
  reg_readout :: "nat \<times> string"

record circuit_args =
  ca_n_cycles :: int
  ca_reset :: bool
  ca_recovery :: bool
  ca_flag :: bool
  ca_snapshot_type :: string
  ca_conditional :: bool
  ca_more :: kwargs

text \<open>
  The functions and constants that the analysis functions take from Qiskit and from the
  repository's other modules (no source in this development): parameters of the model, over
  any type of circuits \<open>'c\<close>, quantum states \<open>'q\<close> and noise models \<open>'nm\<close>.  They are
  total functions, except that running a circuit may raise and that
  \<^verbatim>\<open>simulator.set_option(name, value)\<close> raises when \<open>set_option_raises name value\<close>.
  \<open>add_idle_noise_to_circuit\<close> is always called with \<^verbatim>\<open>return_time=True\<close> and returns the
  circuit and the snapshot times; its last argument is \<^verbatim>\<open>(T1, T2)\<close> when they are passed.
\<close>

record ('c, 'q, 'nm) qiskit_env =
  WACQT_gate_times :: GateTimes
  get_gate_times :: "GateTimes \<Rightarrow> (string \<times> real) list \<Rightarrow> GateTimes"
  thermal_relaxation_model_V2 :: "real \<Rightarrow> real \<Rightarrow> GateTimes \<Rightarrow> 'nm"
  get_full_stabilizer_circuit :: "stabilizer_registers \<Rightarrow> circuit_args \<Rightarrow> 'c"
  shortest_transpile_from_distribution :: "'c \<Rightarrow> kwargs \<Rightarrow> 'c"
  get_encoded_state :: "real \<Rightarrow> real \<Rightarrow> 'q"
  get_circuit_time :: "'c \<Rightarrow> GateTimes \<Rightarrow> time_dict"
  get_empty_noisy_circuit_v3 :: "'c \<Rightarrow> time_dict \<Rightarrow> GateTimes \<Rightarrow> real \<Rightarrow> real \<Rightarrow> 'c"
  add_idle_noise_to_circuit :: "'c \<Rightarrow> GateTimes \<Rightarrow> (real \<times> real) option \<Rightarrow> 'c \<times> time_dict"
  set_option_raises :: "string \<Rightarrow> string \<Rightarrow> bool"
  execute :: "'c \<Rightarrow> 'nm \<Rightarrow> int \<Rightarrow> py_error + 'q results"
  execute_single_qubit :: "instr list \<Rightarrow> int \<Rightarrow> py_error + 'q results"
  state_fidelity :: "'q pyvalue \<Rightarrow> 'q pyvalue \<Rightarrow> real"
  get_trivial_post_select_den_mat :: "'q results \<Rightarrow> int \<Rightarrow> 'q list"
  get_trivial_exp_value :: "'q results \<Rightarrow> int \<Rightarrow> real list"
  get_trivial_post_select_counts :: "(string \<times> int) list \<Rightarrow> int \<Rightarrow> int list"
  WACQT_device_properties :: kwargs

text \<open>
  \<^verbatim>\<open># Get gate times missing from input\<close>: the \<^verbatim>\<open>isinstance\<close> chain at the head of
  \<^verbatim>\<open>fidelity_from_scratch\<close>, \<^verbatim>\<open>fid_single_qubit\<close> and their siblings, with the warning it
  may issue.
\<close>

definition full_gate_times_of ::
  "('c, 'q, 'nm) qiskit_env \<Rightarrow> gate_times_arg \<Rightarrow> GateTimes \<times> effect list" where
  "full_gate_times_of env gate_times =
     (case gate_times of
        GT_dict d \<Rightarrow> (get_gate_times env (WACQT_gate_times env) d, [])
      | GT_object g \<Rightarrow> (g, [])
      | GT_other \<Rightarrow> (WACQT_gate_times env, [Warn ''Invalid gate times, assuming WACQT_gate_times'']))"

text \<open>
  \<^verbatim>\<open>snapshot_type=='dm' or snapshot_type=='density_matrix'\<close> and
  \<^verbatim>\<open>snapshot_type=='exp' or snapshot_type=='expectation_value'\<close>.
\<close>

definition is_dm :: "string \<Rightarrow> bool" where
  "is_dm snapshot_type \<longleftrightarrow> snapshot_type = ''dm'' \<or> snapshot_type = ''density_matrix''"

definition is_exp :: "string \<Rightarrow> bool" where
  "is_exp snapshot_type \<longleftrightarrow> snapshot_type = ''exp'' \<or> snapshot_type = ''expectation_value''"

section \<open>\<open>get_idle_single_qubit\<close> and \<open>fid_single_qubit\<close>\<close>

text \<open>
  The loop \<^verbatim>\<open>for key in snapshot_times\<close> of \<^verbatim>\<open>get_idle_single_qubit\<close>, with its variables
  \<^verbatim>\<open>time_passed\<close> and \<^verbatim>\<open>index\<close>, and the circuit that the function returns.
\<close>

fun idle_snapshots ::
  "string \<Rightarrow> real \<Rightarrow> real \<Rightarrow> string \<Rightarrow> time_dict \<Rightarrow> real \<Rightarrow> nat \<Rightarrow> instr list" where
  "idle_snapshots snapshot_type T1 T2 pauliop [] time_passed index = []"
| "idle_snapshots snapshot_type T1 T2 pauliop ((key, t) # rest) time_passed index =
     (let time_diff = t - time_passed in
      (if time_diff > 0 then [Thermal_relaxation T1 T2 time_diff] else []) @
      (if is_dm snapshot_type then [Save_density_matrix (''snap_'' @ str_nat index)]
       else if is_exp snapshot_type then [Save_expectation_value pauliop (''snap_'' @ str_nat index)]
       else []) @
      idle_snapshots snapshot_type T1 T2 pauliop rest t (index + 1))"

definition get_idle_single_qubit ::
  "time_dict \<Rightarrow> string \<Rightarrow> real \<Rightarrow> real \<Rightarrow> real \<Rightarrow> real \<Rightarrow> string \<Rightarrow> instr list" where
  "get_idle_single_qubit snapshot_times snapshot_type T1 T2 theta phi pauliop =
     [Rx theta, Rz phi, Save_density_matrix ''start''] @
     idle_snapshots snapshot_type T1 T2 pauliop snapshot_times 0 0"

text \<open>
  \<^verbatim>\<open>fid_single_qubit\<close> from \<^verbatim>\<open>fidelities = [1.0] # The initial state\<close> to its \<^verbatim>\<open>return\<close>;
  \<^verbatim>\<open>range(len(time)-2)\<close> is empty when \<open>time\<close> has fewer than three entries.
\<close>

definition single_qubit_fidelities ::
  "('c, 'q, 'nm) qiskit_env \<Rightarrow> 'q results \<Rightarrow> string \<Rightarrow> time_dict
     \<Rightarrow> py_error + 'q pyvalue list \<times> time_dict" where
  "single_qubit_fidelities env results snapshot_type time =
     (let fidelities = [Float 1] in
      if is_dm snapshot_type then
        (case lookup (res_data results) ''start'' of
           Inl e \<Rightarrow> Inl e
         | Inr trivial \<Rightarrow>
             (case append_each
                     (\<lambda>i. case lookup (res_data results) (''snap_'' @ str_nat (i + 1)) of
                            Inl e \<Rightarrow> Inl e
                          | Inr current_state \<Rightarrow>
                              Inr (Float (state_fidelity env current_state trivial)))
                     [0..<length time - 2] fidelities of
                Inl e \<Rightarrow> Inl e
              | Inr fids \<Rightarrow> Inr (fids, time)))
      else if is_exp snapshot_type then
        (case append_each (\<lambda>i. lookup (res_data results) (''snap_'' @ str_nat (i + 1)))
                [0..<length time - 2] fidelities of
           Inl e \<Rightarrow> Inl e
         | Inr fids \<Rightarrow> Inr (fids, time))
      else Inr (fidelities, time))"

text \<open>The whole function: its effects and what it returns or raises.\<close>

definition fid_single_qubit ::
  "('c, 'q, 'nm) qiskit_env \<Rightarrow> int \<Rightarrow> int \<Rightarrow> gate_times_arg \<Rightarrow> string \<Rightarrow> real \<Rightarrow> real \<Rightarrow> real
     \<Rightarrow> real \<Rightarrow> string \<Rightarrow> kwargs \<Rightarrow> effect list \<times> (py_error + 'q pyvalue list \<times> time_dict)" where
  "fid_single_qubit env n_cycles n_shots gate_times snapshot_type T1 T2 theta phi pauliop kwargs =
     (let (full_gate_times, warned) = full_gate_times_of env gate_times;
          registers = \<lparr>reg_qb = (5, ''code_qubit''), reg_an = (2, ''ancilla_qubit''),
                       reg_cr = \<lparr>cr_n_cycles = n_cycles, cr_reset = Some False,
                              cr_recovery = Some False, cr_flag = False\<rparr>,
                       reg_readout = (5, ''readout'')\<rparr>;
          circ0 = get_full_stabilizer_circuit env registers
                    \<lparr>ca_n_cycles = n_cycles, ca_reset = False, ca_recovery = False,
                     ca_flag = False, ca_snapshot_type = snapshot_type,
                     ca_conditional = False, ca_more = kwargs\<rparr>;
          circ1 = shortest_transpile_from_distribution env circ0 Map.empty;
          (circ, time) = add_idle_noise_to_circuit env circ1 full_gate_times None;
          circ_single = get_idle_single_qubit time snapshot_type T1 T2 theta phi pauliop
      in (case execute_single_qubit env circ_single n_shots of
            Inl e \<Rightarrow> (warned @ [Executed n_shots], Inl e)
          | Inr results \<Rightarrow>
              (warned @ [Executed n_shots],
               single_qubit_fidelities env results snapshot_type time)))"

section \<open>\<open>fidelity_from_scratch\<close>\<close>

text \<open>
  The values the function returns, its keyword arguments, and their defaults from the
  signature.
\<close>

datatype 'q ffs_return =
    Return_fid_time "'q pyvalue list" time_dict
  | Return_fid_counts "'q pyvalue list" "int list"
  | Return_empty

record ffs_args =
  ffs_gate_times :: gate_times_arg
  ffs_T1 :: real
  ffs_T2 :: real
  ffs_reset :: bool
  ffs_data_process_type :: string
  ffs_idle_noise :: bool
  ffs_transpile :: bool
  ffs_snapshot_type :: string
  ffs_device :: "string option"
  ffs_device_properties :: kwargs
  ffs_encoding :: bool
  ffs_theta :: real
  ffs_phi :: real
  ffs_pauliop :: string
  ffs_simulator_type :: string
  ffs_kwargs :: kwargs

definition default_args :: "('c, 'q, 'nm) qiskit_env \<Rightarrow> ffs_args" where
  "default_args env =
     \<lparr>ffs_gate_times = GT_dict [], ffs_T1 = 40000, ffs_T2 = 60000, ffs_reset = True,
      ffs_data_process_type = ''recovery'', ffs_idle_noise = True, ffs_transpile = True,
      ffs_snapshot_type = ''dm'', ffs_device = None,
      ffs_device_properties = WACQT_device_properties env, ffs_encoding = True,
      ffs_theta = 0, ffs_phi = 0, ffs_pauliop = ''ZZZZZ'',
      ffs_simulator_type = ''density_matrix'', ffs_kwargs = Map.empty\<rparr>"

text \<open>
  \<^verbatim>\<open># Calculate fidelity at each snapshot\<close>: the loops over \<^verbatim>\<open>range(n_cycles+1)\<close>, which the
  source has twice (empty circuit, and recovery or none).
\<close>

definition snapshot_fidelities ::
  "('c, 'q, 'nm) qiskit_env \<Rightarrow> 'q results \<Rightarrow> string \<Rightarrow> int \<Rightarrow> 'q \<Rightarrow> py_error + 'q pyvalue list" where
  "snapshot_fidelities env results snapshot_type n_cycles trivial =
     (if is_dm snapshot_type then
        append_each
          (\<lambda>current_cycle.
             case lookup (res_data results) (''dm_'' @ str_nat current_cycle) of
               Inl e \<Rightarrow> Inl e
             | Inr state \<Rightarrow> Inr (Float (state_fidelity env state (Quantum trivial))))
          [0..<nat (n_cycles + 1)] []
      else if is_exp snapshot_type then
        append_each (\<lambda>current_cycle. lookup (res_data results) (''exp_'' @ str_nat current_cycle))
          [0..<nat (n_cycles + 1)] []
      else Inr [])"

text \<open>
  \<^verbatim>\<open>try: simulator.set_option('method', simulator_type)\<close> with its bare \<^verbatim>\<open>except\<close>, which
  prints and sets \<^verbatim>\<open>'density_matrix'\<close>; an exception of that second call is not caught.
\<close>

definition set_method :: "('c, 'q, 'nm) qiskit_env \<Rightarrow> string \<Rightarrow> effect list \<times> py_error option" where
  "set_method env simulator_type =
     (if \<not> set_option_raises env ''method'' simulator_type
      then ([Set_option ''method'' simulator_type], None)
      else if \<not> set_option_raises env ''method'' ''density_matrix''
      then ([Print ''Invalid simulator type, defaulting to density_matrix'',
             Set_option ''method'' ''density_matrix''], None)
      else ([Print ''Invalid simulator type, defaulting to density_matrix''],
            Some (SimulatorError ''set_option'')))"

text \<open>
  The \<^verbatim>\<open>if data_process_type == \<dots>\<close> chain after the run.  \<open>time\<close> is the local variable
  \<^verbatim>\<open>time\<close>, which is bound only when idle noise was added; \<^verbatim>\<open>fidelities\<close> of the
  post-selection branch is bound only for a known snapshot type.  Reading an unbound local
  raises UnboundLocalError.
\<close>

definition process_results ::
  "('c, 'q, 'nm) qiskit_env \<Rightarrow> ffs_args \<Rightarrow> int \<Rightarrow> 'q results \<Rightarrow> 'q \<Rightarrow> time_dict option
     \<Rightarrow> effect list \<times> (py_error + 'q ffs_return)" where
  "process_results env a n_cycles results trivial time =
     (let data_process_type = ffs_data_process_type a; snapshot_type = ffs_snapshot_type a in
      if data_process_type = ''recovery'' \<or> data_process_type = ''none'' then
        ([], case snapshot_fidelities env results snapshot_type n_cycles trivial of
               Inl e \<Rightarrow> Inl e
             | Inr fidelities \<Rightarrow>
                 (case time of
                    None \<Rightarrow> Inl UnboundLocalError
                  | Some t \<Rightarrow> Inr (Return_fid_time fidelities t)))
      else if data_process_type = ''post_select'' then
        (let fidelities =
               (if is_dm snapshot_type then
                  Some (map (\<lambda>post_selected_state.
                               Float (state_fidelity env (Quantum post_selected_state) (Quantum trivial)))
                          (get_trivial_post_select_den_mat env results n_cycles))
                else if is_exp snapshot_type then
                  Some (map Float (get_trivial_exp_value env results n_cycles))
                else None);
             select_counts = get_trivial_post_select_counts env (res_counts results) n_cycles
         in ([], case fidelities of
                   None \<Rightarrow> Inl UnboundLocalError
                 | Some f \<Rightarrow> Inr (Return_fid_counts f select_counts)))
      else if data_process_type = ''post_process'' then
        ([Print ''Warning: Post-process not implemented, exiting...''], Inr Return_empty)
      else ([Print ''Warning: No matching data_process_type''], Inr Return_empty))"

text \<open>\<^verbatim>\<open># Check the data processing method for settings\<close>\<close>

definition recovery_conditional :: "string \<Rightarrow> bool \<times> bool" where
  "recovery_conditional data_process_type =
     (if data_process_type = ''recovery'' then (True, False)
      else if data_process_type = ''post_select'' then (False, True)
      else if data_process_type = ''empty_circuit'' then (False, False)
      else (False, False))"

text \<open>\<^verbatim>\<open># Registers\<close>, \<^verbatim>\<open># Circuits\<close> and the optional transpilation.\<close>

definition build_circuit :: "('c, 'q, 'nm) qiskit_env \<Rightarrow> int \<Rightarrow> ffs_args \<Rightarrow> 'c" where
  "build_circuit env n_cycles a =
     (let (recovery, conditional) = recovery_conditional (ffs_data_process_type a);
          registers = \<lparr>reg_qb = (5, ''code_qubit''), reg_an = (2, ''ancilla_qubit''),
                       reg_cr = \<lparr>cr_n_cycles = n_cycles, cr_reset = Some (ffs_reset a),
                              cr_recovery = Some recovery, cr_flag = False\<rparr>,
                       reg_readout = (5, ''readout'')\<rparr>;
          circ = get_full_stabilizer_circuit env registers
                   \<lparr>ca_n_cycles = n_cycles, ca_reset = ffs_reset a, ca_recovery = recovery,
                    ca_flag = False, ca_snapshot_type = ffs_snapshot_type a,
                    ca_conditional = conditional,
                    ca_more = (ffs_kwargs a)
                      (''encoding'' \<mapsto> PyBool (ffs_encoding a),
                       ''theta'' \<mapsto> PyFloat (ffs_theta a),
                       ''phi'' \<mapsto> PyFloat (ffs_phi a),
                       ''pauliop'' \<mapsto> PyStr (ffs_pauliop a),
                       ''device'' \<mapsto> (case ffs_device a of None \<Rightarrow> PyNone | Some d \<Rightarrow> PyStr d),
                       ''simulator_type'' \<mapsto> PyStr (ffs_simulator_type a))\<rparr>
      in if ffs_transpile a
         then shortest_transpile_from_distribution env circ (ffs_device_properties a)
         else circ)"

text \<open>\<^verbatim>\<open># Create empty encoded circuit\<close>: the branch that returns early.\<close>

definition empty_circuit_run ::
  "('c, 'q, 'nm) qiskit_env \<Rightarrow> int \<Rightarrow> int \<Rightarrow> ffs_args \<Rightarrow> GateTimes \<Rightarrow> 'nm \<Rightarrow> 'c \<Rightarrow> 'q
     \<Rightarrow> effect list \<times> (py_error + 'q ffs_return)" where
  "empty_circuit_run env n_cycles n_shots a full_gate_times noise_model circ trivial =
     (let time = get_circuit_time env circ full_gate_times;
          circ' = get_empty_noisy_circuit_v3 env circ time full_gate_times (ffs_T1 a) (ffs_T2 a)
      in (case execute env circ' noise_model n_shots of
            Inl e \<Rightarrow> ([Executed n_shots], Inl e)
          | Inr results \<Rightarrow>
              ([Executed n_shots],
               (case snapshot_fidelities env results (ffs_snapshot_type a) n_cycles trivial of
                  Inl e \<Rightarrow> Inl e
                | Inr fidelities \<Rightarrow> Inr (Return_fid_time fidelities time)))))"

text \<open>\<^verbatim>\<open># Add idle noise\<close> and \<^verbatim>\<open># Run the circuit\<close>, then the processing of the results.\<close>

definition noisy_run ::
  "('c, 'q, 'nm) qiskit_env \<Rightarrow> int \<Rightarrow> int \<Rightarrow> ffs_args \<Rightarrow> GateTimes \<Rightarrow> 'nm \<Rightarrow> 'c \<Rightarrow> 'q
     \<Rightarrow> effect list \<times> (py_error + 'q ffs_return)" where
  "noisy_run env n_cycles n_shots a full_gate_times noise_model circ trivial =
     (let (circ', time) =
            (if ffs_idle_noise a
             then (let (c, t) = add_idle_noise_to_circuit env circ full_gate_times
                                  (Some (ffs_T1 a, ffs_T2 a))
                   in (c, Some t))
             else (circ, None));
          (set_effects, set_error) = set_method env (ffs_simulator_type a)
      in (case set_error of
            Some e \<Rightarrow> (set_effects, Inl e)
          | None \<Rightarrow>
              (case execute env circ' noise_model n_shots of
                 Inl e \<Rightarrow> (set_effects @ [Executed n_shots], Inl e)
               | Inr results \<Rightarrow>
                   (let (printed, r) = process_results env a n_cycles results trivial time
                    in (set_effects @ [Executed n_shots] @ printed, r)))))"

text \<open>The whole function: its effects, and what it returns or raises.\<close>

definition fidelity_from_scratch ::
  "('c, 'q, 'nm) qiskit_env \<Rightarrow> int \<Rightarrow> int \<Rightarrow> ffs_args \<Rightarrow> effect list \<times> (py_error + 'q ffs_return)" where
  "fidelity_from_scratch env n_cycles n_shots a =
     (let (full_gate_times, warned) = full_gate_times_of env (ffs_gate_times a);
          noise_model = thermal_relaxation_model_V2 env (ffs_T1 a) (ffs_T2 a) full_gate_times;
          circ = build_circuit env n_cycles a;
          trivial = get_encoded_state env (ffs_theta a) (ffs_phi a);
          (effects, r) =
            (if ffs_data_process_type a = ''empty_circuit''
             then empty_circuit_run env n_cycles n_shots a full_gate_times noise_model circ trivial
             else noisy_run env n_cycles n_shots a full_gate_times noise_model circ trivial)
      in (warned @ effects, r))"

text \<open>A stub simulator for running the two functions on concrete inputs.\<close>

definition example_results :: "nat results" where
  "example_results =
     \<lparr>res_data = [''dm_0'' \<mapsto> Quantum 0, ''dm_1'' \<mapsto> Quantum 1, ''dm_2'' \<mapsto> Quantum 2,
                   ''start'' \<mapsto> Quantum 0, ''snap_1'' \<mapsto> Quantum 1, ''snap_2'' \<mapsto> Quantum 2],
      res_counts = []\<rparr>"

definition example_time :: time_dict where
  "example_time = [(''dm_0'', 0), (''dm_1'', 1000), (''dm_2'', 2000), (''end'', 2100)]"

definition example_qiskit_env :: "(nat, nat, unit) qiskit_env" where
  "example_qiskit_env =
     \<lparr>WACQT_gate_times =
        \<lparr>single_qubit_default = 20, two_qubit_default = 100,
         custom_gate_times = [(''measure'', 300), (''feedback'', 350)]\<rparr>,
      get_gate_times = (\<lambda>g d. g\<lparr>custom_gate_times := d @ custom_gate_times g\<rparr>),
      thermal_relaxation_model_V2 = (\<lambda>T1 T2 g. ()),
      get_full_stabilizer_circuit = (\<lambda>registers args. nat (ca_n_cycles args)),
      shortest_transpile_from_distribution = (\<lambda>circ properties. circ),
      get_encoded_state = (\<lambda>theta phi. 0),
      get_circuit_time = (\<lambda>circ g. example_time),
      get_empty_noisy_circuit_v3 = (\<lambda>circ time g T1 T2. circ),
      add_idle_noise_to_circuit = (\<lambda>circ g T. (circ, example_time)),
      set_option_raises = (\<lambda>name value. value \<noteq> ''density_matrix''),
      execute = (\<lambda>circ noise_model shots. Inr example_results),
      execute_single_qubit = (\<lambda>circ shots. Inr example_results),
      state_fidelity = (\<lambda>x y. case (x, y) of
                          (Quantum i, Quantum j) \<Rightarrow> 1 / (1 + real (if i < j then j - i else i - j))
                        | _ \<Rightarrow> 0),
      get_trivial_post_select_den_mat = (\<lambda>results n. []),
      get_trivial_exp_value = (\<lambda>results n. []),
      get_trivial_post_select_counts = (\<lambda>counts n. []),
      WACQT_device_properties = Map.empty\<rparr>"

section \<open>Properties of \<open>_get_array_indexes\<close>\<close>

lemma sum_list_update:
  assumes "k < n"
  shows "(\<Sum>j<n. (xs[k := v]) ! j * w j) = (\<Sum>j<n. xs ! j * w j) + ((xs[k := v]) ! k - xs ! k) * (w k :: int)"
proof -
  have fin: "finite {..<n}" and mem: "k \<in> {..<n}" using assms by auto
  have "(\<Sum>j<n. (xs[k := v]) ! j * w j) = (xs[k := v]) ! k * w k + (\<Sum>j\<in>{..<n} - {k}. (xs[k := v]) ! j * w j)"
    by (rule sum.remove[OF fin mem])
  also have "(\<Sum>j\<in>{..<n} - {k}. (xs[k := v]) ! j * w j) = (\<Sum>j\<in>{..<n} - {k}. xs ! j * w j)"
    by (rule sum.cong) auto
  also have "(\<Sum>j<n. xs ! j * w j) = xs ! k * w k + (\<Sum>j\<in>{..<n} - {k}. xs ! j * w j)"
    by (rule sum.remove[OF fin mem])
  ultimately show ?thesis by (simp add: algebra_simps)
qed

lemma row_major_sum_update:
  assumes "k < length ls"
  shows "row_major_sum (t[k := v]) ls =
         row_major_sum t ls + ((t[k := v]) ! k - t ! k) * prod_list (drop (Suc k) ls)"
  unfolding row_major_sum_def
  by (rule sum_list_update[OF assms, of t v "\<lambda>i. prod_list (drop (Suc i) ls)"])

lemma weight_step:
  assumes "Suc i < length ls"
  shows "prod_list (drop (Suc i) ls) = ls ! Suc i * prod_list (drop (Suc (Suc i)) ls)"
proof -
  have "drop (Suc i) ls = ls ! Suc i # drop (Suc (Suc i)) ls"
    using assms by (simp add: Cons_nth_drop_Suc)
  then show ?thesis by simp
qed

lemma carry_loop_length: "length (carry_loop k ls idx) = length idx"
  by (induction k arbitrary: idx) (simp_all add: Let_def)

lemma carry_loop_inv:
  assumes "length idx = length ls" "k < length ls"
    and "\<forall>j<length ls. 0 < ls ! j"
    and "\<forall>j<k. idx ! j = 0" "0 \<le> idx ! k"
    and "\<forall>j. k < j \<and> j < length ls \<longrightarrow> 0 \<le> idx ! j \<and> idx ! j < ls ! j"
  shows "(\<forall>j. 0 < j \<and> j < length ls \<longrightarrow> 0 \<le> carry_loop k ls idx ! j \<and> carry_loop k ls idx ! j < ls ! j)
         \<and> 0 \<le> carry_loop k ls idx ! 0
         \<and> row_major_sum (carry_loop k ls idx) ls = row_major_sum idx ls"
  using assms
proof (induction k arbitrary: idx)
  case 0
  then show ?case by simp
next
  case (Suc i)
  let ?l = "ls ! Suc i"
  let ?v = "idx ! Suc i"
  have lpos: "0 < ?l" using Suc.prems by simp
  have ilt: "i < length ls" "i < length idx" "Suc i < length idx" using Suc.prems by simp_all
  show ?case
  proof (cases "?l \<le> ?v")
    case True
    define q where "q = ?v div ?l"
    define idx1 where "idx1 = idx[i := q]"
    define idx2 where "idx2 = idx1[Suc i := idx1 ! Suc i - idx1 ! i * ?l]"
    have step: "carry_loop (Suc i) ls idx = carry_loop i ls idx2"
      using True by (simp add: Let_def idx2_def idx1_def q_def)
    have i1: "idx1 ! i = q" "idx1 ! Suc i = ?v" using ilt by (simp_all add: idx1_def)
    have r: "idx2 ! Suc i = ?v mod ?l"
      using ilt by (simp add: idx2_def i1 idx1_def q_def minus_div_mult_eq_mod)
    have i2: "idx2 ! i = q" using ilt by (simp add: idx2_def i1 idx1_def)
    have qpos: "0 \<le> q" using Suc.prems(5) lpos by (simp add: q_def pos_imp_zdiv_nonneg_iff)
    have len2: "length idx2 = length ls" using Suc.prems by (simp add: idx2_def idx1_def)
    have zeros: "\<forall>j<i. idx2 ! j = 0" using Suc.prems(4) by (simp add: idx2_def idx1_def)
    have above: "\<forall>j. i < j \<and> j < length ls \<longrightarrow> 0 \<le> idx2 ! j \<and> idx2 ! j < ls ! j"
    proof (intro allI impI)
      fix j assume j: "i < j \<and> j < length ls"
      show "0 \<le> idx2 ! j \<and> idx2 ! j < ls ! j"
      proof (cases "j = Suc i")
        case True
        then show ?thesis using r lpos by simp
      next
        case False
        then have "idx2 ! j = idx ! j" using j by (simp add: idx2_def idx1_def)
        then show ?thesis using Suc.prems(6) j False by simp
      qed
    qed
    have s1: "row_major_sum idx1 ls = row_major_sum idx ls + q * prod_list (drop (Suc i) ls)"
      using row_major_sum_update[OF ilt(1), of idx q] Suc.prems(4) ilt by (simp add: idx1_def)
    have s2: "row_major_sum idx2 ls =
              row_major_sum idx1 ls + (?v mod ?l - ?v) * prod_list (drop (Suc (Suc i)) ls)"
      using row_major_sum_update[OF Suc.prems(2), of idx1 "idx1 ! Suc i - idx1 ! i * ?l"] r i1
      by (simp add: idx2_def)
    have "q * ?l + ?v mod ?l = ?v" unfolding q_def by (rule div_mult_mod_eq)
    then have "q * ?l + (?v mod ?l - ?v) = 0" by simp
    then have "(q * ?l + (?v mod ?l - ?v)) * prod_list (drop (Suc (Suc i)) ls) = 0" by simp
    then have same: "row_major_sum idx2 ls = row_major_sum idx ls"
      using s1 s2 weight_step[OF Suc.prems(2)] by (simp add: algebra_simps)
    from Suc.IH[OF len2 ilt(1) Suc.prems(3) zeros _ above] i2 qpos same step
    show ?thesis by simp
  next
    case False
    then have step: "carry_loop (Suc i) ls idx = carry_loop i ls idx" by simp
    have above: "\<forall>j. i < j \<and> j < length ls \<longrightarrow> 0 \<le> idx ! j \<and> idx ! j < ls ! j"
    proof (intro allI impI)
      fix j assume j: "i < j \<and> j < length ls"
      show "0 \<le> idx ! j \<and> idx ! j < ls ! j"
      proof (cases "j = Suc i")
        case True
        then show ?thesis using False Suc.prems(5) by simp
      next
        case False
        then show ?thesis using Suc.prems(6) j by simp
      qed
    qed
    have z: "idx ! i = 0" using Suc.prems(4) by simp
    from Suc.IH[OF Suc.prems(1) ilt(1) Suc.prems(3) _ _ above] Suc.prems(4) z step
    show ?thesis by simp
  qed
qed


lemma row_major_sum_Cons:
  "row_major_sum (a # t) (l # ls) = a * prod_list ls + row_major_sum t ls"
  unfolding row_major_sum_def by (simp add: sum.lessThan_Suc_shift del: sum.lessThan_Suc)

lemma in_shape_Cons:
  "in_shape (a # t) (l # ls) \<longleftrightarrow> 0 \<le> a \<and> a < l \<and> in_shape t ls"
  unfolding in_shape_def by (auto simp: less_Suc_eq_0_disj)

lemma in_shape_Nil: "in_shape t [] \<longleftrightarrow> t = []"
  unfolding in_shape_def by simp

lemma row_major_sum_bounds:
  "in_shape t ls \<Longrightarrow> 0 \<le> row_major_sum t ls \<and> row_major_sum t ls < prod_list ls"
proof (induction ls arbitrary: t)
  case Nil
  then show ?case by (simp add: in_shape_Nil row_major_sum_def)
next
  case (Cons l ls)
  then obtain a t' where t: "t = a # t'"
    by (cases t) (auto simp: in_shape_def)
  with Cons.prems have a: "0 \<le> a" "a < l" and sh: "in_shape t' ls"
    by (simp_all add: in_shape_Cons)
  from Cons.IH[OF sh] have s: "0 \<le> row_major_sum t' ls" "row_major_sum t' ls < prod_list ls"
    by simp_all
  then have P: "0 < prod_list ls" by simp
  have "a * prod_list ls + row_major_sum t' ls < (a + 1) * prod_list ls"
    using s by (simp add: algebra_simps)
  also have "\<dots> \<le> l * prod_list ls"
    using a P by (intro mult_right_mono) simp_all
  finally have "a * prod_list ls + row_major_sum t' ls < l * prod_list ls" .
  moreover have "0 \<le> a * prod_list ls + row_major_sum t' ls"
    using a s P by simp
  ultimately show ?case by (simp add: t row_major_sum_Cons)
qed

lemma row_major_sum_inj:
  "in_shape t ls \<Longrightarrow> in_shape t' ls \<Longrightarrow> row_major_sum t ls = row_major_sum t' ls \<Longrightarrow> t = t'"
proof (induction ls arbitrary: t t')
  case Nil
  then show ?case by (simp add: in_shape_Nil)
next
  case (Cons l ls)
  from Cons.prems(1) obtain a u where t: "t = a # u"
    by (cases t) (auto simp: in_shape_def)
  from Cons.prems(2) obtain b v where t': "t' = b # v"
    by (cases t') (auto simp: in_shape_def)
  from Cons.prems t t' have shu: "in_shape u ls" and shv: "in_shape v ls"
    by (simp_all add: in_shape_Cons)
  define P where "P = prod_list ls"
  define x where "x = row_major_sum u ls"
  define y where "y = row_major_sum v ls"
  have bx: "0 \<le> x" "x < P" and "0 \<le> y" "y < P"
    using row_major_sum_bounds[OF shu] row_major_sum_bounds[OF shv]
    by (simp_all add: P_def x_def y_def)
  have eq: "a * P + x = b * P + y"
    using Cons.prems(3) by (simp add: t t' row_major_sum_Cons P_def x_def y_def)
  have "(a * P + x) div P = a" "(b * P + y) div P = b"
    using bx \<open>0 \<le> y\<close> \<open>y < P\<close> by simp_all
  with eq have ab: "a = b" by simp
  with eq have "x = y" by simp
  with Cons.IH[OF shu shv] ab show ?case by (simp add: t t' x_def y_def)
qed

lemma row_major_sum_init:
  assumes "n = length ls" "0 < n"
  shows "row_major_sum ((replicate n 0)[n - 1 := index]) ls = index"
proof -
  have k: "n - 1 < length ls" using assms by simp
  have z: "row_major_sum (replicate n 0) ls = 0"
    unfolding row_major_sum_def using assms by simp
  have d: "drop (Suc (n - 1)) ls = []" using assms by simp
  show ?thesis
    using row_major_sum_update[OF k, of "replicate n 0" index] z d assms by simp
qed

lemma get_array_indexes_sound:
  assumes ret: "get_array_indexes index sweep_lengths = Inr t"
    and pos: "\<forall>l\<in>set sweep_lengths. 0 < l"
    and lo: "0 \<le> index" and hi: "index < prod_list sweep_lengths"
  shows "in_shape t sweep_lengths \<and> row_major_sum t sweep_lengths = index"
proof -
  define n where "n = length sweep_lengths"
  define idx0 where "idx0 = (replicate n (0::int))[n - 1 := index]"
  have npos: "0 < n" using ret by (auto simp: get_array_indexes_def Let_def n_def split: if_splits)
  have t_def: "t = carry_loop (n - 1) sweep_lengths idx0"
    using ret by (auto simp: get_array_indexes_def Let_def n_def idx0_def split: if_splits)
  have ne: "sweep_lengths \<noteq> []" using npos by (auto simp: n_def)
  have len0: "length idx0 = length sweep_lengths" by (simp add: idx0_def n_def)
  have k: "n - 1 < length sweep_lengths" using npos by (simp add: n_def)
  have pos': "\<forall>j<length sweep_lengths. 0 < sweep_lengths ! j" using pos by simp
  have zeros: "\<forall>j<n - 1. idx0 ! j = 0" by (simp add: idx0_def)
  have top: "0 \<le> idx0 ! (n - 1)" using lo npos by (simp add: idx0_def)
  have above: "\<forall>j. n - 1 < j \<and> j < length sweep_lengths \<longrightarrow> 0 \<le> idx0 ! j \<and> idx0 ! j < sweep_lengths ! j"
    by (auto simp: n_def)
  from carry_loop_inv[OF len0 k pos' zeros top above]
  have tail: "\<forall>j. 0 < j \<and> j < length sweep_lengths \<longrightarrow> 0 \<le> t ! j \<and> t ! j < sweep_lengths ! j"
    and t0: "0 \<le> t ! 0"
    and sum: "row_major_sum t sweep_lengths = index"
    using row_major_sum_init[OF n_def npos, of index] by (simp_all add: t_def idx0_def)
  have lent: "length t = length sweep_lengths"
    by (simp add: t_def carry_loop_length len0)
  obtain l ls where ls: "sweep_lengths = l # ls" using ne by (cases sweep_lengths) auto
  obtain a u where tu: "t = a # u" using lent ls by (cases t) auto
  have shu: "in_shape u ls"
    unfolding in_shape_def using tail lent by (auto simp: ls tu)
  have "a * prod_list ls \<le> a * prod_list ls + row_major_sum u ls"
    using row_major_sum_bounds[OF shu] by simp
  also have "\<dots> < l * prod_list ls"
    using sum hi by (simp add: ls tu row_major_sum_Cons)
  finally have "a * prod_list ls < l * prod_list ls" .
  moreover have "0 < prod_list ls" using row_major_sum_bounds[OF shu] by simp
  ultimately have "a < l" by simp
  then have head: "t ! 0 < sweep_lengths ! 0" by (simp add: ls tu)
  have rng: "\<forall>i<length sweep_lengths. 0 \<le> t ! i \<and> t ! i < sweep_lengths ! i"
  proof (intro allI impI)
    fix i assume "i < length sweep_lengths"
    then show "0 \<le> t ! i \<and> t ! i < sweep_lengths ! i"
      using tail t0 head by (cases "i = 0") simp_all
  qed
  then show ?thesis using sum by (simp add: in_shape_def lent)
qed

lemma get_array_indexes_returns:
  assumes "sweep_lengths \<noteq> []" "0 \<le> index" "index < 2 ^ 63"
  shows "\<exists>t. get_array_indexes index sweep_lengths = Inr t"
  using assms by (simp add: get_array_indexes_def Let_def int64_range_def)

text \<open>
  Claim C3, amended.  For every non-empty list \<open>sweep_lengths\<close> of positive integers and
  every \<open>index\<close> with \<open>0 \<le> index < product(sweep_lengths)\<close> that fits a 64-bit cell,
  \<open>_get_array_indexes\<close> returns the row-major multi-index of \<open>index\<close>: the tuple \<open>t\<close>
  with \<open>0 \<le> t[i] < sweep_lengths[i]\<close> whose weighted sum is \<open>index\<close>, and it is the only
  such tuple (so it is what \<open>unravel_index\<close> returns in C order).
\<close>

theorem get_array_indexes_row_major:
  assumes ne: "sweep_lengths \<noteq> []"
    and pos: "\<forall>l\<in>set sweep_lengths. 0 < l"
    and lo: "0 \<le> index" and hi: "index < prod_list sweep_lengths"
    and fits: "index < 2 ^ 63"
  shows "\<exists>t. get_array_indexes index sweep_lengths = Inr t
           \<and> length t = length sweep_lengths
           \<and> (\<forall>i<length sweep_lengths. 0 \<le> t ! i \<and> t ! i < sweep_lengths ! i)
           \<and> row_major_sum t sweep_lengths = index
           \<and> (\<forall>u. in_shape u sweep_lengths \<and> row_major_sum u sweep_lengths = index \<longrightarrow> u = t)"
proof -
  from get_array_indexes_returns[OF ne lo fits]
  obtain t where ret: "get_array_indexes index sweep_lengths = Inr t" ..
  from get_array_indexes_sound[OF ret pos lo hi]
  have sht: "in_shape t sweep_lengths" and sum: "row_major_sum t sweep_lengths = index"
    by simp_all
  have uniq: "\<forall>u. in_shape u sweep_lengths \<and> row_major_sum u sweep_lengths = index \<longrightarrow> u = t"
    using row_major_sum_inj[OF _ sht] sum by simp
  show ?thesis using ret sht sum uniq unfolding in_shape_def by blast
qed

theorem get_array_indexes_row_major_witness:
  "get_array_indexes 23 [2, 3, 4] = Inr [1, 2, 3] \<and> row_major_sum [1, 2, 3] [2, 3, 4] = 23"
proof -
  have e: "get_array_indexes 23 [2, 3, 4] = Inr [1, 2, 3]"
    by (simp add: get_array_indexes_def int64_range_def Let_def numeral_2_eq_2)
  have "\<exists>t. get_array_indexes 23 [2, 3, 4] = Inr t \<and> length t = length [2, 3, 4 :: int]
           \<and> (\<forall>i<length [2, 3, 4 :: int]. 0 \<le> t ! i \<and> t ! i < [2, 3, 4] ! i)
           \<and> row_major_sum t [2, 3, 4] = 23
           \<and> (\<forall>u. in_shape u [2, 3, 4] \<and> row_major_sum u [2, 3, 4] = 23 \<longrightarrow> u = t)"
    by (rule get_array_indexes_row_major) simp_all
  with e show ?thesis by auto
qed

text \<open>
  The claim as stated also covers the empty list (whose product is 1, so \<open>index = 0\<close> is
  admitted) and indexes beyond 64 bits; there the function raises.
\<close>

theorem get_array_indexes_counterexample:
  "get_array_indexes 0 [] = Inl IndexError \<and> (0::int) < prod_list [] \<and>
   get_array_indexes (2 ^ 63) [2 ^ 64] = Inl OverflowError \<and> (2::int) ^ 63 < prod_list [2 ^ 64]"
  by (simp add: get_array_indexes_def int64_range_def)

section \<open>Properties of \<open>sweep_parameter_space\<close>\<close>

lemma normalize_index_nonneg:
  "length t = length sh \<Longrightarrow> \<forall>i<length t. 0 \<le> t ! i \<Longrightarrow> normalize_index sh t = t"
  unfolding normalize_index_def
  by (rule nth_equalityI) (auto simp: not_less)

lemma setitem_in_shape:
  assumes "in_shape t (shape a)"
  shows "\<exists>a'. setitem a t v = Inr a' \<and> shape a' = shape a \<and>
           (\<forall>u. length u = length t \<longrightarrow> cells a' u = (if u = t then v else cells a u))"
proof -
  have len: "length t = length (shape a)" and rng: "\<forall>i<length t. 0 \<le> t ! i \<and> t ! i < shape a ! i"
    using assms by (simp_all add: in_shape_def)
  have nob: "\<not> (\<exists>(i, d) \<in> set (zip t (shape a)). i < - d \<or> d \<le> i)"
  proof
    assume "\<exists>(i, d) \<in> set (zip t (shape a)). i < - d \<or> d \<le> i"
    then obtain i d where m: "(i, d) \<in> set (zip t (shape a))" and b: "i < - d \<or> d \<le> i" by auto
    from m obtain k where k: "k < length t" "t ! k = i" "shape a ! k = d"
      using len by (auto simp: set_zip)
    with rng b show False by auto
  qed
  have norm: "normalize_index (shape a) t = t"
    using normalize_index_nonneg[OF len] rng by simp
  show ?thesis using len nob norm by (simp add: setitem_def)
qed

lemma sweep_step_skip:
  "skip_case params \<Longrightarrow> sweep_step env a ls params s = Inr (s\<lparr>st_index := st_index s + 1\<rparr>)"
  by (simp add: sweep_step_def)

lemma sweep_step_run:
  assumes "\<not> skip_case params" "sweep_step env a ls params s = Inr s'"
  shows "\<exists>time_list fids p0 T cov u v.
           fit_combination env a params = Inr ((time_list, fids, p0), (T, cov)) \<and>
           cov00 cov = Inr v \<and>
           get_array_indexes (st_index s) ls = Inr u \<and>
           setitem (st_error_array s) u T = Inr (st_error_array s') \<and>
           setitem (st_var_array s) u v = Inr (st_var_array s') \<and>
           st_index s' = st_index s + 1 \<and>
           st_calls s' = st_calls s @ combination_calls env a (st_index s) params"
  using assms
  by (auto simp: sweep_step_def combination_calls_def fit_combination_def Let_def
      split: sum.splits prod.splits)

lemma sweep_step_raise:
  assumes "sweep_step env a ls params s = Inl (e, s1)"
  shows "\<not> skip_case params \<and> st_index s1 = st_index s \<and>
         st_calls s1 = st_calls s @ combination_calls env a (st_index s) params"
  using assms
  by (auto simp: sweep_step_def combination_calls_def Let_def
      split: sum.splits prod.splits if_splits)

lemma get_array_indexes_inj:
  assumes "get_array_indexes i ls = Inr u" "get_array_indexes i' ls = Inr u"
    and "\<forall>l\<in>set ls. 0 < l" "0 \<le> i" "i < prod_list ls" "0 \<le> i'" "i' < prod_list ls"
  shows "i = i'"
  using get_array_indexes_sound[OF assms(1,3,4,5)] get_array_indexes_sound[OF assms(2,3,6,7)]
  by simp

lemma sweep_step_effect:
  assumes ok: "sweep_step env a ls params s = Inr s1"
    and pos: "\<forall>l\<in>set ls. 0 < l"
    and lo: "0 \<le> st_index s" and hi: "st_index s < prod_list ls"
    and sh: "shape (st_error_array s) = ls" "shape (st_var_array s) = ls"
  shows "st_index s1 = st_index s + 1 \<and> shape (st_error_array s1) = ls \<and> shape (st_var_array s1) = ls
       \<and> st_calls s1 = st_calls s @ combination_calls env a (st_index s) params
       \<and> (skip_case params \<longrightarrow> st_error_array s1 = st_error_array s \<and> st_var_array s1 = st_var_array s)
       \<and> (\<not> skip_case params \<longrightarrow>
            (\<exists>x T cov v u. fit_combination env a params = Inr (x, (T, cov)) \<and> cov00 cov = Inr v \<and>
               get_array_indexes (st_index s) ls = Inr u \<and>
               (\<forall>w. length w = length ls \<longrightarrow>
                  cells (st_error_array s1) w = (if w = u then T else cells (st_error_array s) w) \<and>
                  cells (st_var_array s1) w = (if w = u then v else cells (st_var_array s) w))))"
proof (cases "skip_case params")
  case True
  with ok have "s1 = s\<lparr>st_index := st_index s + 1\<rparr>" by (simp add: sweep_step_skip)
  with True sh show ?thesis by (simp add: combination_calls_def)
next
  case False
  from sweep_step_run[OF False ok] obtain time_list fids p0 T cov u v where
    fit: "fit_combination env a params = Inr ((time_list, fids, p0), (T, cov))"
    and c: "cov00 cov = Inr v"
    and g: "get_array_indexes (st_index s) ls = Inr u"
    and se: "setitem (st_error_array s) u T = Inr (st_error_array s1)"
    and sv: "setitem (st_var_array s) u v = Inr (st_var_array s1)"
    and ix: "st_index s1 = st_index s + 1"
    and cl: "st_calls s1 = st_calls s @ combination_calls env a (st_index s) params"
    by blast
  from get_array_indexes_sound[OF g pos lo hi] have ush: "in_shape u ls" by simp
  then have lu: "length u = length ls" by (simp add: in_shape_def)
  from setitem_in_shape[of u "st_error_array s" T] ush sh se
  have e: "shape (st_error_array s1) = ls"
    "\<forall>w. length w = length u \<longrightarrow> cells (st_error_array s1) w = (if w = u then T else cells (st_error_array s) w)"
    by auto
  from setitem_in_shape[of u "st_var_array s" v] ush sh sv
  have v: "shape (st_var_array s1) = ls"
    "\<forall>w. length w = length u \<longrightarrow> cells (st_var_array s1) w = (if w = u then v else cells (st_var_array s) w)"
    by auto
  have w: "\<forall>w. length w = length ls \<longrightarrow>
                  cells (st_error_array s1) w = (if w = u then T else cells (st_error_array s) w) \<and>
                  cells (st_var_array s1) w = (if w = u then v else cells (st_var_array s) w)"
    using e(2) v(2) lu by simp
  have "\<exists>x T cov v u. fit_combination env a params = Inr (x, (T, cov)) \<and> cov00 cov = Inr v \<and>
               get_array_indexes (st_index s) ls = Inr u \<and>
               (\<forall>w. length w = length ls \<longrightarrow>
                  cells (st_error_array s1) w = (if w = u then T else cells (st_error_array s) w) \<and>
                  cells (st_var_array s1) w = (if w = u then v else cells (st_var_array s) w))"
    using fit c g w by blast
  then show ?thesis using False ix cl e(1) v(1) by blast
qed

lemma sweep_loop_cells:
  assumes "sweep_loop (sweep_step env a ls) cs s = Inr s'"
    and pos: "\<forall>l\<in>set ls. 0 < l"
    and lo: "0 \<le> st_index s" and hi: "st_index s + int (length cs) \<le> prod_list ls"
    and sh: "shape (st_error_array s) = ls" "shape (st_var_array s) = ls"
  shows "st_index s' = st_index s + int (length cs)
       \<and> (\<forall>j<length cs. \<not> skip_case (cs ! j) \<longrightarrow>
            (\<exists>x T cov v u. fit_combination env a (cs ! j) = Inr (x, (T, cov)) \<and> cov00 cov = Inr v \<and>
               get_array_indexes (st_index s + int j) ls = Inr u \<and>
               cells (st_error_array s') u = T \<and> cells (st_var_array s') u = v))
       \<and> (\<forall>w. length w = length ls \<longrightarrow>
            (\<forall>j<length cs. \<not> skip_case (cs ! j) \<longrightarrow> get_array_indexes (st_index s + int j) ls \<noteq> Inr w) \<longrightarrow>
            cells (st_error_array s') w = cells (st_error_array s) w \<and>
            cells (st_var_array s') w = cells (st_var_array s) w)"
  using assms
proof (induction cs arbitrary: s)
  case Nil
  then show ?case by simp
next
  case (Cons p ps)
  from Cons.prems(1) obtain s1 where
    st: "sweep_step env a ls p s = Inr s1" and rest: "sweep_loop (sweep_step env a ls) ps s1 = Inr s'"
    by (auto split: sum.splits)
  have hi0: "st_index s < prod_list ls" using Cons.prems(4) by simp
  note eff = sweep_step_effect[OF st Cons.prems(2) Cons.prems(3) hi0 Cons.prems(5) Cons.prems(6)]
  have ix1: "st_index s1 = st_index s + 1" using eff by simp
  have lo1: "0 \<le> st_index s1" using ix1 Cons.prems(3) by simp
  have hi1: "st_index s1 + int (length ps) \<le> prod_list ls" using ix1 Cons.prems(4) by simp
  have sh1: "shape (st_error_array s1) = ls" "shape (st_var_array s1) = ls" using eff by simp_all
  note IH = Cons.IH[OF rest Cons.prems(2) lo1 hi1 sh1]
  have A: "st_index s' = st_index s + int (length (p # ps))" using IH ix1 by simp
  have later: "\<And>j w. j < length ps \<Longrightarrow> get_array_indexes (st_index s) ls = Inr w \<Longrightarrow>
                 get_array_indexes (st_index s1 + int j) ls \<noteq> Inr w"
  proof
    fix j w assume j: "j < length ps" and g0: "get_array_indexes (st_index s) ls = Inr w"
      and g1: "get_array_indexes (st_index s1 + int j) ls = Inr w"
    have "st_index s = st_index s1 + int j"
      by (rule get_array_indexes_inj[OF g0 g1 Cons.prems(2) Cons.prems(3) hi0])
         (use lo1 hi1 j in simp_all)
    then show False using ix1 by simp
  qed
  have B: "\<forall>j<length (p # ps). \<not> skip_case ((p # ps) ! j) \<longrightarrow>
            (\<exists>x T cov v u. fit_combination env a ((p # ps) ! j) = Inr (x, (T, cov)) \<and> cov00 cov = Inr v \<and>
               get_array_indexes (st_index s + int j) ls = Inr u \<and>
               cells (st_error_array s') u = T \<and> cells (st_var_array s') u = v)"
  proof (intro allI impI)
    fix j assume j: "j < length (p # ps)" and ns: "\<not> skip_case ((p # ps) ! j)"
    show "\<exists>x T cov v u. fit_combination env a ((p # ps) ! j) = Inr (x, (T, cov)) \<and> cov00 cov = Inr v \<and>
               get_array_indexes (st_index s + int j) ls = Inr u \<and>
               cells (st_error_array s') u = T \<and> cells (st_var_array s') u = v"
    proof (cases j)
      case 0
      with ns have nsp: "\<not> skip_case p" by simp
      with eff obtain x T cov v u where
        f: "fit_combination env a p = Inr (x, (T, cov))" and c: "cov00 cov = Inr v"
        and g: "get_array_indexes (st_index s) ls = Inr u"
        and w: "\<forall>w. length w = length ls \<longrightarrow>
                  cells (st_error_array s1) w = (if w = u then T else cells (st_error_array s) w) \<and>
                  cells (st_var_array s1) w = (if w = u then v else cells (st_var_array s) w)"
        by blast
      have lu: "length u = length ls"
        using get_array_indexes_sound[OF g Cons.prems(2) Cons.prems(3) hi0] by (simp add: in_shape_def)
      have "\<forall>j<length ps. \<not> skip_case (ps ! j) \<longrightarrow> get_array_indexes (st_index s1 + int j) ls \<noteq> Inr u"
        using later[OF _ g] by blast
      with IH lu have "cells (st_error_array s') u = cells (st_error_array s1) u"
        "cells (st_var_array s') u = cells (st_var_array s1) u" by blast+
      with w lu have "cells (st_error_array s') u = T" "cells (st_var_array s') u = v" by simp_all
      with f c g 0 show ?thesis by (simp del: split_paired_Ex)
    next
      case (Suc j')
      with j ns have j': "j' < length ps" "\<not> skip_case (ps ! j')" by simp_all
      with IH obtain x T cov v u where
        "fit_combination env a (ps ! j') = Inr (x, (T, cov))" "cov00 cov = Inr v"
        "get_array_indexes (st_index s1 + int j') ls = Inr u"
        "cells (st_error_array s') u = T" "cells (st_var_array s') u = v" by blast
      moreover have "st_index s1 + int j' = st_index s + int j" using ix1 Suc by simp
      ultimately show ?thesis using Suc by (simp del: split_paired_Ex)
    qed
  qed
  have C: "\<forall>w. length w = length ls \<longrightarrow>
            (\<forall>j<length (p # ps). \<not> skip_case ((p # ps) ! j) \<longrightarrow> get_array_indexes (st_index s + int j) ls \<noteq> Inr w) \<longrightarrow>
            cells (st_error_array s') w = cells (st_error_array s) w \<and>
            cells (st_var_array s') w = cells (st_var_array s) w"
  proof (intro allI impI)
    fix w assume lw: "length w = length ls"
      and nh: "\<forall>j<length (p # ps). \<not> skip_case ((p # ps) ! j) \<longrightarrow> get_array_indexes (st_index s + int j) ls \<noteq> Inr w"
    have "\<forall>j<length ps. \<not> skip_case (ps ! j) \<longrightarrow> get_array_indexes (st_index s1 + int j) ls \<noteq> Inr w"
    proof (intro allI impI)
      fix j assume "j < length ps" "\<not> skip_case (ps ! j)"
      with nh[rule_format, of "Suc j"] show "get_array_indexes (st_index s1 + int j) ls \<noteq> Inr w"
        using ix1 by (simp add: add.commute add.left_commute)
    qed
    with IH lw have l: "cells (st_error_array s') w = cells (st_error_array s1) w"
      "cells (st_var_array s') w = cells (st_var_array s1) w" by blast+
    have "cells (st_error_array s1) w = cells (st_error_array s) w \<and>
          cells (st_var_array s1) w = cells (st_var_array s) w"
    proof (cases "skip_case p")
      case True
      with eff show ?thesis by simp
    next
      case False
      with nh[rule_format, of 0] have "get_array_indexes (st_index s) ls \<noteq> Inr w" by simp
      with eff False lw show ?thesis by auto
    qed
    with l show "cells (st_error_array s') w = cells (st_error_array s) w \<and>
            cells (st_var_array s') w = cells (st_var_array s) w" by simp
  qed
  from A B C show ?case by blast
qed

lemma combination_calls_tag: "e \<in> set (combination_calls env a k params) \<Longrightarrow> fst e = k"
  by (auto simp: combination_calls_def split: if_splits sum.splits prod.splits)

lemma filter_combination_calls:
  "filter (\<lambda>e. fst e = k) (combination_calls env a i params) =
     (if k = i then combination_calls env a i params else [])"
proof (cases "k = i")
  case True
  then show ?thesis using combination_calls_tag[of _ env a i params] by (auto simp: filter_id_conv)
next
  case False
  then show ?thesis using combination_calls_tag[of _ env a i params] by (auto simp: filter_empty_conv)
qed

lemma sweep_step_calls:
  "sweep_step env a ls params s = Inr s1 \<Longrightarrow>
     st_index s1 = st_index s + 1 \<and>
     st_calls s1 = st_calls s @ combination_calls env a (st_index s) params"
proof (cases "skip_case params")
  case True
  assume "sweep_step env a ls params s = Inr s1"
  with True show ?thesis by (auto simp: sweep_step_skip combination_calls_def)
next
  case False
  assume "sweep_step env a ls params s = Inr s1"
  from sweep_step_run[OF False this] show ?thesis by blast
qed

lemma sweep_loop_calls:
  assumes "sweep_loop (sweep_step env a ls) cs s = Inr s'"
  shows "filter (\<lambda>e. fst e = k) (st_calls s') =
           filter (\<lambda>e. fst e = k) (st_calls s) @
           (if st_index s \<le> k \<and> k < st_index s + int (length cs)
            then combination_calls env a k (cs ! nat (k - st_index s)) else [])"
  using assms
proof (induction cs arbitrary: s)
  case Nil
  then show ?case by auto
next
  case (Cons p ps)
  from Cons.prems obtain s1 where
    st: "sweep_step env a ls p s = Inr s1" and rest: "sweep_loop (sweep_step env a ls) ps s1 = Inr s'"
    by (auto split: sum.splits)
  from sweep_step_calls[OF st] have ix: "st_index s1 = st_index s + 1"
    and cl: "st_calls s1 = st_calls s @ combination_calls env a (st_index s) p" by simp_all
  note IH = Cons.IH[OF rest]
  show ?case
  proof (cases "k = st_index s")
    case True
    then show ?thesis using IH ix cl by (simp add: filter_combination_calls)
  next
    case False
    show ?thesis
    proof (cases "st_index s < k \<and> k < st_index s + 1 + int (length ps)")
      case True
      then have "nat (k - st_index s) = Suc (nat (k - st_index s1))" using ix by linarith
      then show ?thesis using IH ix cl True False by (simp add: filter_combination_calls)
    next
      case F2: False
      then show ?thesis using IH ix cl False by (auto simp add: filter_combination_calls)
    qed
  qed
qed

lemma length_product_lists:
  "length (product_lists xss) = prod_list (map length xss)"
proof (induction xss)
  case Nil
  then show ?case by simp
next
  case (Cons xs xss)
  have "length (concat (map (\<lambda>x. map (Cons x) (product_lists xss)) xs)) =
        length xs * length (product_lists xss)"
    by (induction xs) simp_all
  with Cons show ?case by simp
qed

lemma nth_concat_blocks:
  assumes "\<forall>x\<in>set xs. length (f x) = P" "a < length xs" "r < P"
  shows "concat (map f xs) ! (a * P + r) = f (xs ! a) ! r"
  using assms
proof (induction xs arbitrary: a)
  case Nil
  then show ?case by simp
next
  case (Cons x xs)
  show ?case
  proof (cases a)
    case 0
    with Cons.prems show ?thesis by (simp add: nth_append)
  next
    case (Suc a')
    with Cons.prems have "concat (map f xs) ! (a' * P + r) = f (xs ! a') ! r"
      by (intro Cons.IH) simp_all
    moreover have "length (f x) = P" using Cons.prems by simp
    ultimately show ?thesis using Suc by (simp add: nth_append)
  qed
qed

lemma prod_lengths_of: "prod_list (lengths_of xss) = int (length (product_lists xss))"
proof -
  have "prod_list (lengths_of xss) = int (prod_list (map length xss))"
    by (induction xss) (simp_all add: lengths_of_def)
  then show ?thesis by (simp add: length_product_lists)
qed

lemma product_lists_nth:
  assumes "in_shape t (lengths_of xss)"
  shows "product_lists xss ! nat (row_major_sum t (lengths_of xss)) = combination_at xss t"
  using assms
proof (induction xss arbitrary: t)
  case Nil
  then show ?case by (simp add: lengths_of_def in_shape_Nil row_major_sum_def combination_at_def)
next
  case (Cons xs xss)
  from Cons.prems obtain a u where t: "t = a # u"
    by (cases t) (auto simp: in_shape_def lengths_of_def)
  from Cons.prems t have a: "0 \<le> a" "a < int (length xs)" and shu: "in_shape u (lengths_of xss)"
    by (simp_all add: in_shape_Cons lengths_of_def)
  define P where "P = length (product_lists xss)"
  define r where "r = row_major_sum u (lengths_of xss)"
  have rb: "0 \<le> r" "r < int P"
    using row_major_sum_bounds[OF shu] by (simp_all add: r_def P_def prod_lengths_of)
  have "row_major_sum t (lengths_of (xs # xss)) = a * int P + r"
    using t by (simp add: lengths_of_def row_major_sum_Cons P_def r_def
        prod_lengths_of[unfolded lengths_of_def])
  then have n: "nat (row_major_sum t (lengths_of (xs # xss))) = nat a * P + nat r"
    using a rb by (simp add: nat_add_distrib nat_mult_distrib)
  have "concat (map (\<lambda>x. map (Cons x) (product_lists xss)) xs) ! (nat a * P + nat r) =
        map (Cons (xs ! nat a)) (product_lists xss) ! nat r"
    by (rule nth_concat_blocks) (use a rb in \<open>simp_all add: P_def\<close>)
  also have "\<dots> = xs ! nat a # product_lists xss ! nat r"
    using rb by (simp add: P_def)
  also have "product_lists xss ! nat r = combination_at xss u"
    using Cons.IH[OF shu] by (simp add: r_def)
  finally show ?case using n t by (simp add: combination_at_def)
qed

lemma in_shape_positive:
  assumes "in_shape t ls"
  shows "\<forall>l\<in>set ls. 0 < l"
proof
  fix l assume "l \<in> set ls"
  then obtain i where "i < length ls" "ls ! i = l" by (auto simp: in_set_conv_nth)
  with assms show "0 < l" by (auto simp: in_shape_def)
qed

lemma sweep_parameter_space_loop:
  assumes "sweep_parameter_space env T1 T2 sq tq mt ft n_cycles n_shots single_qubit save
             perfect_stab kwargs = Inr s"
  shows "\<exists>s'. sweep_loop (sweep_step env (make_args n_cycles n_shots single_qubit perfect_stab kwargs)
                  (lengths_of (noise_parameter_lists T1 T2 sq tq mt ft)))
               (product_lists (noise_parameter_lists T1 T2 sq tq mt ft))
               \<lparr>st_index = 0,
                st_error_array = np_zeros (lengths_of (noise_parameter_lists T1 T2 sq tq mt ft)),
                st_var_array = np_zeros (lengths_of (noise_parameter_lists T1 T2 sq tq mt ft)),
                st_calls = []\<rparr> = Inr s'
          \<and> st_index s = st_index s' \<and> st_error_array s = st_error_array s'
          \<and> st_var_array s = st_var_array s'
          \<and> (\<forall>k. k \<noteq> st_index s' \<longrightarrow>
                filter (\<lambda>e. fst e = k) (st_calls s) = filter (\<lambda>e. fst e = k) (st_calls s'))"
  using assms
  by (auto simp: sweep_parameter_space_def Let_def split: sum.splits option.splits)

lemma sweep_cells:
  assumes ret: "sweep_parameter_space env T1 T2 sq tq mt ft n_cycles n_shots single_qubit save
             perfect_stab kwargs = Inr s"
    and sh: "in_shape t (lengths_of (noise_parameter_lists T1 T2 sq tq mt ft))"
  shows "st_index s = int (length (product_lists (noise_parameter_lists T1 T2 sq tq mt ft)))"
    and "skip_case (combination_at (noise_parameter_lists T1 T2 sq tq mt ft) t) \<Longrightarrow>
           cells (st_error_array s) t = 0 \<and> cells (st_var_array s) t = 0"
    and "\<not> skip_case (combination_at (noise_parameter_lists T1 T2 sq tq mt ft) t) \<Longrightarrow>
           \<exists>x T cov v. fit_combination env (make_args n_cycles n_shots single_qubit perfect_stab kwargs)
                          (combination_at (noise_parameter_lists T1 T2 sq tq mt ft) t) = Inr (x, (T, cov))
              \<and> cov00 cov = Inr v
              \<and> cells (st_error_array s) t = T \<and> cells (st_var_array s) t = v"
proof -
  define nps where "nps = noise_parameter_lists T1 T2 sq tq mt ft"
  define ls where "ls = lengths_of nps"
  define a where "a = make_args n_cycles n_shots single_qubit perfect_stab kwargs"
  define cs where "cs = product_lists nps"
  define s0 where "s0 = \<lparr>st_index = 0, st_error_array = np_zeros ls, st_var_array = np_zeros ls,
                          st_calls = []\<rparr>"
  from sweep_parameter_space_loop[OF ret] obtain s' where
    loop: "sweep_loop (sweep_step env a ls) cs s0 = Inr s'"
    and same: "st_index s = st_index s'" "st_error_array s = st_error_array s'"
      "st_var_array s = st_var_array s'"
    unfolding nps_def ls_def a_def cs_def s0_def by blast
  have sh': "in_shape t ls" using sh by (simp add: ls_def nps_def)
  have pos: "\<forall>l\<in>set ls. 0 < l" by (rule in_shape_positive[OF sh'])
  have N: "prod_list ls = int (length cs)" by (simp add: ls_def cs_def prod_lengths_of)
  have lo: "0 \<le> st_index s0" and hi: "st_index s0 + int (length cs) \<le> prod_list ls"
    and shp: "shape (st_error_array s0) = ls" "shape (st_var_array s0) = ls"
    by (simp_all add: s0_def N np_zeros_def)
  note L = sweep_loop_cells[OF loop pos lo hi shp]
  define j where "j = row_major_sum t ls"
  have jb: "0 \<le> j" "j < int (length cs)"
    using row_major_sum_bounds[OF sh'] by (simp_all add: j_def N)
  have cj: "cs ! nat j = combination_at nps t"
    using product_lists_nth[of t nps] sh' by (simp add: cs_def j_def ls_def)
  have idx: "\<And>k u. k < length cs \<Longrightarrow> get_array_indexes (st_index s0 + int k) ls = Inr u \<Longrightarrow>
               u = t \<longleftrightarrow> int k = j"
  proof -
    fix k u assume k: "k < length cs" and g: "get_array_indexes (st_index s0 + int k) ls = Inr u"
    have g': "get_array_indexes (int k) ls = Inr u" using g by (simp add: s0_def)
    have "in_shape u ls \<and> row_major_sum u ls = int k"
      by (rule get_array_indexes_sound[OF g' pos]) (use k N in simp_all)
    then show "u = t \<longleftrightarrow> int k = j"
      using row_major_sum_inj[OF _ sh', of u] by (auto simp: j_def)
  qed
  show "st_index s = int (length (product_lists (noise_parameter_lists T1 T2 sq tq mt ft)))"
    using L same by (simp add: s0_def cs_def nps_def)
  {
    assume sk: "skip_case (combination_at (noise_parameter_lists T1 T2 sq tq mt ft) t)"
    have "\<forall>k<length cs. \<not> skip_case (cs ! k) \<longrightarrow> get_array_indexes (st_index s0 + int k) ls \<noteq> Inr t"
    proof (intro allI impI notI)
      fix k assume k: "k < length cs" and ns: "\<not> skip_case (cs ! k)"
        and g: "get_array_indexes (st_index s0 + int k) ls = Inr t"
      from idx[OF k g] have "int k = j" by simp
      then have "cs ! k = combination_at nps t" using cj by auto
      with ns sk show False by (simp add: nps_def)
    qed
    moreover have "length t = length ls" using sh' by (simp add: in_shape_def)
    ultimately have "cells (st_error_array s') t = cells (st_error_array s0) t \<and>
                     cells (st_var_array s') t = cells (st_var_array s0) t"
      using L by blast
    then show "cells (st_error_array s) t = 0 \<and> cells (st_var_array s) t = 0"
      using same by (simp add: s0_def np_zeros_def)
  }
  {
    assume ns: "\<not> skip_case (combination_at (noise_parameter_lists T1 T2 sq tq mt ft) t)"
    have nj: "nat j < length cs" using jb by simp
    have "\<not> skip_case (cs ! nat j)" using ns cj by (simp add: nps_def)
    with L nj obtain x T cov v u where
      f: "fit_combination env a (cs ! nat j) = Inr (x, (T, cov))" and c: "cov00 cov = Inr v"
      and g: "get_array_indexes (st_index s0 + int (nat j)) ls = Inr u"
      and e: "cells (st_error_array s') u = T" "cells (st_var_array s') u = v"
      by blast
    from idx[OF nj g] jb have "u = t" by simp
    with f c e same cj
    show "\<exists>x T cov v. fit_combination env (make_args n_cycles n_shots single_qubit perfect_stab kwargs)
                          (combination_at (noise_parameter_lists T1 T2 sq tq mt ft) t) = Inr (x, (T, cov))
              \<and> cov00 cov = Inr v
              \<and> cells (st_error_array s) t = T \<and> cells (st_var_array s) t = v"
      by (simp add: a_def nps_def del: split_paired_Ex)
  }
qed

lemma sweep_calls:
  assumes ret: "sweep_parameter_space env T1 T2 sq tq mt ft n_cycles n_shots single_qubit save
             perfect_stab kwargs = Inr s"
    and k: "k < length (product_lists (noise_parameter_lists T1 T2 sq tq mt ft))"
  shows "filter (\<lambda>e. fst e = int k) (st_calls s) =
           combination_calls env (make_args n_cycles n_shots single_qubit perfect_stab kwargs) (int k)
             (product_lists (noise_parameter_lists T1 T2 sq tq mt ft) ! k)"
proof -
  define nps where "nps = noise_parameter_lists T1 T2 sq tq mt ft"
  define ls where "ls = lengths_of nps"
  define a where "a = make_args n_cycles n_shots single_qubit perfect_stab kwargs"
  define cs where "cs = product_lists nps"
  define s0 where "s0 = \<lparr>st_index = 0, st_error_array = np_zeros ls, st_var_array = np_zeros ls,
                          st_calls = []\<rparr>"
  from sweep_parameter_space_loop[OF ret] obtain s' where
    loop: "sweep_loop (sweep_step env a ls) cs s0 = Inr s'"
    and same: "\<forall>k. k \<noteq> st_index s' \<longrightarrow>
                filter (\<lambda>e. fst e = k) (st_calls s) = filter (\<lambda>e. fst e = k) (st_calls s')"
    unfolding nps_def ls_def a_def cs_def s0_def by blast
  have ix: "st_index s' = int (length cs)"
  proof -
    have "\<And>s1. sweep_loop (sweep_step env a ls) cs s1 = Inr s' \<Longrightarrow>
            st_index s' = st_index s1 + int (length cs)"
    proof (induction cs)
      case Nil
      then show ?case by simp
    next
      case (Cons p ps)
      from Cons.prems obtain s2 where st: "sweep_step env a ls p s1 = Inr s2"
        and rest: "sweep_loop (sweep_step env a ls) ps s2 = Inr s'"
        by (auto split: sum.splits)
      from sweep_step_calls[OF st] Cons.IH[OF rest] show ?case by simp
    qed
    from this[OF loop] show ?thesis by (simp add: s0_def)
  qed
  have "int k \<noteq> st_index s'" using k ix by (simp add: cs_def nps_def)
  with same have "filter (\<lambda>e. fst e = int k) (st_calls s) = filter (\<lambda>e. fst e = int k) (st_calls s')"
    by blast
  also have "\<dots> = combination_calls env a (int k) (cs ! k)"
    using sweep_loop_calls[OF loop, of "int k"] k by (simp add: s0_def cs_def nps_def)
  finally show ?thesis by (simp add: a_def cs_def nps_def)
qed

lemma sweep_loop_raise_index:
  "sweep_loop (sweep_step env a ls) cs s = Inl (e, s') \<Longrightarrow>
     st_index s \<le> st_index s' \<and> st_index s' < st_index s + int (length cs)"
proof (induction cs arbitrary: s)
  case Nil
  then show ?case by simp
next
  case (Cons p ps)
  show ?case
  proof (cases "sweep_step env a ls p s")
    case (Inl x)
    with Cons.prems have "sweep_step env a ls p s = Inl (e, s')" by simp
    from sweep_step_raise[OF this] show ?thesis by simp
  next
    case (Inr s1)
    with Cons.prems have rest: "sweep_loop (sweep_step env a ls) ps s1 = Inl (e, s')" by simp
    from sweep_step_calls[OF Inr] Cons.IH[OF rest] show ?thesis by simp
  qed
qed

lemma sweep_loop_trace:
  "filter (\<lambda>e. fst e = k) (st_calls (final_state (sweep_loop (sweep_step env a ls) cs s))) =
     filter (\<lambda>e. fst e = k) (st_calls s) @
     (if st_index s \<le> k \<and> k < st_index s + int (length cs) \<and>
         (case sweep_loop (sweep_step env a ls) cs s of
            Inl (e, s') \<Rightarrow> k \<le> st_index s' | Inr s' \<Rightarrow> True)
      then combination_calls env a k (cs ! nat (k - st_index s)) else [])"
proof (induction cs arbitrary: s)
  case Nil
  then show ?case by (auto simp: final_state_def)
next
  case (Cons p ps)
  show ?case
  proof (cases "sweep_step env a ls p s")
    case (Inl x)
    obtain e s1 where x: "x = (e, s1)" by (cases x)
    from sweep_step_raise[OF Inl[unfolded x]] have
      ix: "st_index s1 = st_index s"
      and cl: "st_calls s1 = st_calls s @ combination_calls env a (st_index s) p" by simp_all
    have r: "sweep_loop (sweep_step env a ls) (p # ps) s = Inl (e, s1)" using Inl x by simp
    show ?thesis
      unfolding r by (cases "k = st_index s") (auto simp: final_state_def ix cl filter_combination_calls)
  next
    case (Inr s1)
    from sweep_step_calls[OF Inr] have ix: "st_index s1 = st_index s + 1"
      and cl: "st_calls s1 = st_calls s @ combination_calls env a (st_index s) p" by simp_all
    have r: "sweep_loop (sweep_step env a ls) (p # ps) s = sweep_loop (sweep_step env a ls) ps s1"
      using Inr by simp
    note IH = Cons.IH[of s1]
    have mono: "\<And>e s'. sweep_loop (sweep_step env a ls) ps s1 = Inl (e, s') \<Longrightarrow> st_index s < st_index s'"
      using sweep_loop_raise_index[of env a ls ps s1] ix by fastforce
    show ?thesis
    proof (cases "k = st_index s")
      case True
      have reached: "(case sweep_loop (sweep_step env a ls) ps s1 of
            Inl (e, s') \<Rightarrow> k \<le> st_index s' | Inr s' \<Rightarrow> True)"
        using mono True by (auto split: sum.splits)
      show ?thesis unfolding r using IH ix cl True reached
        by (simp add: filter_combination_calls)
    next
      case False
      show ?thesis
      proof (cases "st_index s < k \<and> k < st_index s + 1 + int (length ps)")
        case True
        then have "nat (k - st_index s) = Suc (nat (k - st_index s1))" using ix by linarith
        then show ?thesis unfolding r using IH ix cl True False
          by (simp add: filter_combination_calls)
      next
        case F2: False
        then show ?thesis unfolding r using IH ix cl False
          by (auto simp add: filter_combination_calls)
      qed
    qed
  qed
qed

lemma fit_combination_Inr:
  assumes "fit_combination env a params = Inr (x, (T, cov))"
  shows "\<exists>fid time c A. simulate env a params = Inr (fid, time) \<and>
           curve_fit env monoExp (butlast (tl (map snd time))) (tl fid) (params ! 0, 0, 9 / 10)
             = Inr ([T, c, A], cov) \<and>
           x = (butlast (tl (map snd time)), tl fid, (params ! 0, 0, 9 / 10))"
  using assms
  by (auto simp: fit_combination_def fit_combination_logged_def simulate_def scipy_curve_fit_def
      Let_def split: sum.splits prod.splits list.splits if_splits)

lemma cov00_Inr: "cov00 cov = Inr v \<Longrightarrow> cov ! 0 ! 0 = v"
  by (auto simp: cov00_def split: list.splits)

text \<open>
  Claim C2.  When \<open>sweep_parameter_space\<close> returns, then for every combination that is not
  skipped, at multi-index \<open>t\<close> of the parameter grid, the simulation of that combination
  returned fidelities \<open>fid\<close> and snapshot times \<open>time\<close>, the fit of \<open>monoExp\<close> to
  \<open>fid[1:]\<close> against \<open>list(time.values())[1:-1]\<close> returned \<open>(pars, cov)\<close>, and the
  returned arrays hold \<open>error_array[t] = pars[0]\<close>, the decay constant \<open>T\<close>, and
  \<open>var_array[t] = cov[0][0]\<close>.
\<close>

theorem sweep_error_array_entry:
  assumes "sweep_parameter_space env T1 T2 single_qubit_gate_time two_qubit_gate_time measure_time
             feedback_time n_cycles n_shots single_qubit save perfect_stab kwargs = Inr s"
    and "in_shape t (lengths_of (noise_parameter_lists T1 T2 single_qubit_gate_time
                       two_qubit_gate_time measure_time feedback_time))"
    and "params = combination_at (noise_parameter_lists T1 T2 single_qubit_gate_time
                       two_qubit_gate_time measure_time feedback_time) t"
    and "\<not> skip_case params"
  shows "\<exists>fid time pars cov.
           simulate env (make_args n_cycles n_shots single_qubit perfect_stab kwargs) params
             = Inr (fid, time) \<and>
           curve_fit env monoExp (butlast (tl (map snd time))) (tl fid) (params ! 0, 0, 9 / 10)
             = Inr (pars, cov) \<and>
           cells (st_error_array s) t = pars ! 0 \<and>
           cells (st_var_array s) t = cov ! 0 ! 0"
proof -
  from sweep_cells(3)[OF assms(1,2)] assms(3,4) obtain x T cov v where
    f: "fit_combination env (make_args n_cycles n_shots single_qubit perfect_stab kwargs) params
          = Inr (x, (T, cov))"
    and c: "cov00 cov = Inr v"
    and e: "cells (st_error_array s) t = T" "cells (st_var_array s) t = v"
    by auto
  from fit_combination_Inr[OF f] obtain fid time c' A where
    "simulate env (make_args n_cycles n_shots single_qubit perfect_stab kwargs) params = Inr (fid, time)"
    "curve_fit env monoExp (butlast (tl (map snd time))) (tl fid) (params ! 0, 0, 9 / 10)
       = Inr ([T, c', A], cov)"
    by blast
  moreover have "[T, c', A] ! 0 = T" by simp
  ultimately show ?thesis using e cov00_Inr[OF c] by metis
qed

lemma example_sweep_runs:
  "\<exists>s. sweep_parameter_space example_env (ParamList [1, 2]) (ParamList [1, 3]) (Scalar 20)
          (Scalar 100) (Scalar 300) (Scalar 350) 3 1 False None False Map.empty = Inr s"
  by (simp add: sweep_parameter_space_def example_env_def sweep_step_def skip_case_def
      make_args_def theta_phi_def noise_parameter_lists_def lengths_of_def fit_combination_logged_def
      simulate_logged_def scipy_curve_fit_def get_array_indexes_def int64_range_def setitem_def np_zeros_def cov00_def
      normalize_index_def Let_def numeral_eq_Suc)

lemma example_in_shape:
  "in_shape [1, 1, 0, 0, 0, 0] (lengths_of (noise_parameter_lists (ParamList [1, 2]) (ParamList [1, 3])
      (Scalar 20) (Scalar 100) (Scalar 300) (Scalar 350)))"
  by (simp add: lengths_of_def noise_parameter_lists_def in_shape_Cons in_shape_Nil)

lemma example_combination:
  "combination_at (noise_parameter_lists (ParamList [1, 2]) (ParamList [1, 3])
      (Scalar 20) (Scalar 100) (Scalar 300) (Scalar 350)) [1, 1, 0, 0, 0, 0] = [2, 3, 20, 100, 300, 350]"
  by (simp add: combination_at_def noise_parameter_lists_def)

theorem sweep_error_array_entry_witness:
  "\<exists>s. sweep_parameter_space example_env (ParamList [1, 2]) (ParamList [1, 3]) (Scalar 20)
          (Scalar 100) (Scalar 300) (Scalar 350) 3 1 False None False Map.empty = Inr s \<and>
        \<not> skip_case [2, 3, 20, 100, 300, 350] \<and>
        cells (st_error_array s) [1, 1, 0, 0, 0, 0] = 7 \<and>
        cells (st_var_array s) [1, 1, 0, 0, 0, 0] = 6"
proof -
  from example_sweep_runs obtain s where
    s: "sweep_parameter_space example_env (ParamList [1, 2]) (ParamList [1, 3]) (Scalar 20)
          (Scalar 100) (Scalar 300) (Scalar 350) 3 1 False None False Map.empty = Inr s" ..
  have ns: "\<not> skip_case [2, 3, 20, 100, 300, 350]" by (simp add: skip_case_def)
  from sweep_error_array_entry[OF s example_in_shape example_combination[symmetric] ns]
  obtain fid time pars cov where
    sim: "simulate example_env (make_args 3 1 False False Map.empty) [2, 3, 20, 100, 300, 350]
            = Inr (fid, time)"
    and fit: "curve_fit example_env monoExp (butlast (tl (map snd time))) (tl fid)
                ([2, 3, 20, 100, 300, 350] ! 0, 0, 9 / 10) = Inr (pars, cov)"
    and e: "cells (st_error_array s) [1, 1, 0, 0, 0, 0] = pars ! 0"
           "cells (st_var_array s) [1, 1, 0, 0, 0, 0] = cov ! 0 ! 0"
    by blast
  from sim have ft: "fid = [1, 2, 3, 0]"
    "time = [(''dm_0'', 0), (''dm_1'', 1), (''dm_2'', 2), (''dm_3'', 3), (''end'', 4)]"
    by (auto simp: simulate_def simulate_logged_def example_env_def make_args_def)
  from fit have "pars ! 0 = 7" "cov ! 0 ! 0 = 6"
    by (auto simp: ft example_env_def)
  with s ns e show ?thesis by auto
qed

lemma example_products:
  "product_lists (noise_parameter_lists (ParamList [1, 2]) (ParamList [1, 3]) (Scalar 20)
     (Scalar 100) (Scalar 300) (Scalar 350)) =
   [[1, 1, 20, 100, 300, 350], [1, 3, 20, 100, 300, 350],
    [2, 1, 20, 100, 300, 350], [2, 3, 20, 100, 300, 350]]"
  by (simp add: noise_parameter_lists_def)

text \<open>
  Claim C9.  For a combination with \<open>T2 > 2 T1\<close>, at multi-index \<open>t\<close>: both returned arrays
  are \<open>0\<close> at \<open>t\<close>; the combination sits at position \<open>row_major_sum t\<close> of the product and no
  call was made while the counter had that value; the counter has advanced once per
  combination; and every combination that is not skipped has its own fit result at its
  own multi-index.
\<close>

theorem sweep_skipped_combination:
  assumes "sweep_parameter_space env T1 T2 single_qubit_gate_time two_qubit_gate_time measure_time
             feedback_time n_cycles n_shots single_qubit save perfect_stab kwargs = Inr s"
    and "noise_parameters = noise_parameter_lists T1 T2 single_qubit_gate_time
                       two_qubit_gate_time measure_time feedback_time"
    and "in_shape t (lengths_of noise_parameters)"
    and "combination_at noise_parameters t ! 1 > 2 * combination_at noise_parameters t ! 0"
  shows "cells (st_error_array s) t = 0 \<and> cells (st_var_array s) t = 0 \<and>
         product_lists noise_parameters ! nat (row_major_sum t (lengths_of noise_parameters))
           = combination_at noise_parameters t \<and>
         filter (\<lambda>e. fst e = row_major_sum t (lengths_of noise_parameters)) (st_calls s) = [] \<and>
         st_index s = int (length (product_lists noise_parameters)) \<and>
         (\<forall>u. in_shape u (lengths_of noise_parameters) \<and>
              \<not> combination_at noise_parameters u ! 1 > 2 * combination_at noise_parameters u ! 0 \<longrightarrow>
              (\<exists>x T cov. fit_combination env
                            (make_args n_cycles n_shots single_qubit perfect_stab kwargs)
                            (combination_at noise_parameters u) = Inr (x, (T, cov)) \<and>
                 cells (st_error_array s) u = T \<and>
                 cells (st_var_array s) u = cov ! 0 ! 0))"
proof -
  let ?ls = "lengths_of noise_parameters"
  let ?j = "row_major_sum t ?ls"
  have ret: "sweep_parameter_space env T1 T2 single_qubit_gate_time two_qubit_gate_time measure_time
             feedback_time n_cycles n_shots single_qubit save perfect_stab kwargs = Inr s"
    by (rule assms(1))
  have sh: "in_shape t (lengths_of (noise_parameter_lists T1 T2 single_qubit_gate_time
                       two_qubit_gate_time measure_time feedback_time))"
    using assms(2,3) by simp
  have sk: "skip_case (combination_at noise_parameters t)" using assms(4) by (simp add: skip_case_def)
  have zero: "cells (st_error_array s) t = 0 \<and> cells (st_var_array s) t = 0"
    using sweep_cells(2)[OF ret sh] sk assms(2) by simp
  have pn: "product_lists noise_parameters ! nat ?j = combination_at noise_parameters t"
    by (rule product_lists_nth[OF assms(3)])
  have jb: "0 \<le> ?j" "?j < int (length (product_lists noise_parameters))"
    using row_major_sum_bounds[OF assms(3)] by (simp_all add: prod_lengths_of)
  then have nj: "nat ?j < length (product_lists (noise_parameter_lists T1 T2 single_qubit_gate_time
                       two_qubit_gate_time measure_time feedback_time))"
    using assms(2) by simp
  have "filter (\<lambda>e. fst e = int (nat ?j)) (st_calls s) = []"
    using sweep_calls[OF ret nj] pn sk assms(2) by (simp add: combination_calls_def)
  then have nocalls: "filter (\<lambda>e. fst e = ?j) (st_calls s) = []" using jb by simp
  have ix: "st_index s = int (length (product_lists noise_parameters))"
    using sweep_cells(1)[OF ret sh] assms(2) by simp
  have others: "\<forall>u. in_shape u ?ls \<and>
              \<not> combination_at noise_parameters u ! 1 > 2 * combination_at noise_parameters u ! 0 \<longrightarrow>
              (\<exists>x T cov. fit_combination env
                            (make_args n_cycles n_shots single_qubit perfect_stab kwargs)
                            (combination_at noise_parameters u) = Inr (x, (T, cov)) \<and>
                 cells (st_error_array s) u = T \<and>
                 cells (st_var_array s) u = cov ! 0 ! 0)"
  proof (intro allI impI)
    fix u assume u: "in_shape u ?ls \<and>
              \<not> combination_at noise_parameters u ! 1 > 2 * combination_at noise_parameters u ! 0"
    then have shu: "in_shape u (lengths_of (noise_parameter_lists T1 T2 single_qubit_gate_time
                       two_qubit_gate_time measure_time feedback_time))"
      and nsu: "\<not> skip_case (combination_at (noise_parameter_lists T1 T2 single_qubit_gate_time
                       two_qubit_gate_time measure_time feedback_time) u)"
      using assms(2) by (simp_all add: skip_case_def)
    from sweep_cells(3)[OF ret shu nsu] obtain x T cov v where
      "fit_combination env (make_args n_cycles n_shots single_qubit perfect_stab kwargs)
         (combination_at noise_parameters u) = Inr (x, (T, cov))"
      "cov00 cov = Inr v" "cells (st_error_array s) u = T" "cells (st_var_array s) u = v"
      using assms(2) by auto
    then show "\<exists>x T cov. fit_combination env
                            (make_args n_cycles n_shots single_qubit perfect_stab kwargs)
                            (combination_at noise_parameters u) = Inr (x, (T, cov)) \<and>
                 cells (st_error_array s) u = T \<and>
                 cells (st_var_array s) u = cov ! 0 ! 0"
      using cov00_Inr by (simp del: split_paired_Ex)
  qed
  from zero pn nocalls ix others show ?thesis by blast
qed

theorem sweep_skipped_combination_witness:
  "\<exists>s. sweep_parameter_space example_env (ParamList [1, 2]) (ParamList [1, 3]) (Scalar 20)
          (Scalar 100) (Scalar 300) (Scalar 350) 3 1 False None False Map.empty = Inr s \<and>
        combination_at (noise_parameter_lists (ParamList [1, 2]) (ParamList [1, 3]) (Scalar 20)
          (Scalar 100) (Scalar 300) (Scalar 350)) [0, 1, 0, 0, 0, 0] = [1, 3, 20, 100, 300, 350] \<and>
        cells (st_error_array s) [0, 1, 0, 0, 0, 0] = 0 \<and>
        cells (st_var_array s) [0, 1, 0, 0, 0, 0] = 0 \<and>
        filter (\<lambda>e. fst e = 1) (st_calls s) = [] \<and>
        st_index s = 4 \<and>
        cells (st_error_array s) [1, 1, 0, 0, 0, 0] = 7"
proof -
  let ?nps = "noise_parameter_lists (ParamList [1, 2]) (ParamList [1, 3]) (Scalar 20)
          (Scalar 100) (Scalar 300) (Scalar 350)"
  from example_sweep_runs obtain s where
    s: "sweep_parameter_space example_env (ParamList [1, 2]) (ParamList [1, 3]) (Scalar 20)
          (Scalar 100) (Scalar 300) (Scalar 350) 3 1 False None False Map.empty = Inr s" ..
  have sh: "in_shape [0, 1, 0, 0, 0, 0] (lengths_of ?nps)"
    by (simp add: lengths_of_def noise_parameter_lists_def in_shape_Cons in_shape_Nil)
  have c: "combination_at ?nps [0, 1, 0, 0, 0, 0] = [1, 3, 20, 100, 300, 350]"
    by (simp add: combination_at_def noise_parameter_lists_def)
  have sk: "combination_at ?nps [0, 1, 0, 0, 0, 0] ! 1 > 2 * combination_at ?nps [0, 1, 0, 0, 0, 0] ! 0"
    by (simp add: c)
  have j: "row_major_sum [0, 1, 0, 0, 0, 0] (lengths_of ?nps) = 1"
    by (simp add: lengths_of_def noise_parameter_lists_def row_major_sum_Cons row_major_sum_def)
  note main = sweep_skipped_combination[OF s refl sh sk]
  have u: "in_shape [1, 1, 0, 0, 0, 0] (lengths_of ?nps) \<and>
           \<not> combination_at ?nps [1, 1, 0, 0, 0, 0] ! 1 > 2 * combination_at ?nps [1, 1, 0, 0, 0, 0] ! 0"
    using example_in_shape by (simp add: example_combination)
  with main obtain x T cov where
    f: "fit_combination example_env (make_args 3 1 False False Map.empty)
          (combination_at ?nps [1, 1, 0, 0, 0, 0]) = Inr (x, (T, cov))"
    and e: "cells (st_error_array s) [1, 1, 0, 0, 0, 0] = T" by blast
  from f have "T = 7"
    by (auto simp: example_combination fit_combination_def fit_combination_logged_def
        simulate_logged_def scipy_curve_fit_def example_env_def make_args_def Let_def)
  with e have seven: "cells (st_error_array s) [1, 1, 0, 0, 0, 0] = 7" by simp
  have four: "length (product_lists ?nps) = 4" by (simp add: example_products)
  have "cells (st_error_array s) [0, 1, 0, 0, 0, 0] = 0" "cells (st_var_array s) [0, 1, 0, 0, 0, 0] = 0"
    "filter (\<lambda>e. fst e = 1) (st_calls s) = []" "st_index s = 4"
    using main unfolding j four by simp_all
  with s c seven show ?thesis by (intro exI[of _ s] conjI)
qed

lemma simulate_logged_call:
  "fst (simulate_logged env a params) =
     Simulation (if arg_single_qubit a then Fid_single_qubit
                 else if arg_perfect_stab a then Perfect_stab_circuit
                 else Fidelity_from_scratch)
       (arg_n_cycles a) (arg_n_shots a) (params ! 0) (params ! 1) (make_gate_times params)"
  by (simp add: simulate_logged_def Let_def)

lemma simulate_routes:
  "simulate env a params =
     (if arg_single_qubit a then
        (case fid_single_qubit_routine env (arg_n_cycles a) (arg_n_shots a) (params ! 0)
                (params ! 1) (make_gate_times params) (arg_kwargs a) of
           Inl e \<Rightarrow> Inl e
         | Inr (fid, time) \<Rightarrow>
             Inr (if py_eq_float (arg_theta a) (pi / 2) \<and> py_eq_float (arg_phi a) (pi / 2)
                  then map (\<lambda>f. 2 * f - 1) fid else fid, time))
      else if arg_perfect_stab a then
        perfect_stab_circuit env (arg_n_cycles a) (arg_n_shots a) (make_gate_times params)
          (params ! 0) (params ! 1)
      else
        (case fidelity_from_scratch_routine env (arg_n_cycles a) (arg_n_shots a) (params ! 0)
                (params ! 1) (make_gate_times params) (arg_kwargs a) of
           Inl e \<Rightarrow> Inl e
         | Inr res \<Rightarrow> unpack_fid_time res))"
  by (auto simp: simulate_def simulate_logged_def Let_def split: sum.splits prod.splits)

lemma fit_combination_calls:
  "fst (fit_combination_logged env a params) =
     fst (simulate_logged env a params) #
     (case simulate env a params of
        Inl e \<Rightarrow> []
      | Inr (fid, time) \<Rightarrow>
          [Curve_fit_monoExp (butlast (tl (map snd time))) (tl fid) (params ! 0, 0, 9 / 10)])"
  by (auto simp: fit_combination_logged_def simulate_def Let_def
      split: sum.splits prod.splits list.splits)

lemma sweep_trace:
  assumes k: "k < length (product_lists (noise_parameter_lists T1 T2 sq tq mt ft))"
  shows "filter (\<lambda>e. fst e = int k)
           (st_calls (final_state (sweep_parameter_space env T1 T2 sq tq mt ft n_cycles n_shots
              single_qubit save perfect_stab kwargs))) =
         (if loop_reached (sweep_parameter_space env T1 T2 sq tq mt ft n_cycles n_shots
              single_qubit save perfect_stab kwargs) k
          then combination_calls env (make_args n_cycles n_shots single_qubit perfect_stab kwargs)
                 (int k) (product_lists (noise_parameter_lists T1 T2 sq tq mt ft) ! k)
          else [])"
proof (cases "sweep_parameter_space env T1 T2 sq tq mt ft n_cycles n_shots
              single_qubit save perfect_stab kwargs")
  case (Inr s)
  from sweep_calls[OF Inr k] show ?thesis by (simp add: Inr final_state_def loop_reached_def)
next
  case (Inl x)
  obtain e s where x: "x = (e, s)" by (cases x)
  define nps where "nps = noise_parameter_lists T1 T2 sq tq mt ft"
  define ls where "ls = lengths_of nps"
  define a where "a = make_args n_cycles n_shots single_qubit perfect_stab kwargs"
  define s0 where "s0 = \<lparr>st_index = 0, st_error_array = np_zeros ls, st_var_array = np_zeros ls,
                          st_calls = []\<rparr>"
  have loop: "sweep_loop (sweep_step env a ls) (product_lists nps) s0 = Inl (e, s)"
    using Inl x
    by (auto simp: sweep_parameter_space_def Let_def nps_def ls_def a_def s0_def
        split: sum.splits option.splits)
  have kk: "k < length (product_lists nps)" using k by (simp add: nps_def)
  have s0i: "st_index s0 = 0" "st_calls s0 = []" by (simp_all add: s0_def)
  note tr = sweep_loop_trace[of "int k" env a ls "product_lists nps" s0, unfolded loop]
  have "filter (\<lambda>e. fst e = int k) (st_calls s) =
          (if int k \<le> st_index s then combination_calls env a (int k) (product_lists nps ! k) else [])"
    using tr kk by (simp add: final_state_def s0i)
  then show ?thesis
    by (simp add: Inl x final_state_def loop_reached_def a_def nps_def)
qed

lemma sweep_returned_fits:
  assumes ret: "sweep_parameter_space env T1 T2 sq tq mt ft n_cycles n_shots single_qubit save
             perfect_stab kwargs = Inr s"
    and k: "k < length (product_lists (noise_parameter_lists T1 T2 sq tq mt ft))"
    and ns: "\<not> skip_case (product_lists (noise_parameter_lists T1 T2 sq tq mt ft) ! k)"
  shows "\<exists>x T cov. fit_combination env (make_args n_cycles n_shots single_qubit perfect_stab kwargs)
           (product_lists (noise_parameter_lists T1 T2 sq tq mt ft) ! k) = Inr (x, (T, cov))"
proof -
  define a where "a = make_args n_cycles n_shots single_qubit perfect_stab kwargs"
  define nps where "nps = noise_parameter_lists T1 T2 sq tq mt ft"
  have lens: "prod_list (lengths_of nps) = int (length (product_lists nps))"
    by (rule prod_lengths_of)
  have kk: "k < length (product_lists nps)" using k by (simp add: nps_def)
  have pos: "\<forall>l\<in>set (lengths_of nps). 0 < l"
  proof (rule ccontr)
    assume "\<not> (\<forall>l\<in>set (lengths_of nps). 0 < l)"
    then obtain l where "l \<in> set (lengths_of nps)" "l \<le> 0" by force
    then have "0 \<in> set (lengths_of nps)" by (auto simp: lengths_of_def)
    then have "prod_list (lengths_of nps) = 0" by (simp add: prod_list_zero_iff)
    with lens kk show False by simp
  qed
  from sweep_parameter_space_loop[OF ret] obtain s' where
    loop: "sweep_loop (sweep_step env a (lengths_of nps)) (product_lists nps)
             \<lparr>st_index = 0, st_error_array = np_zeros (lengths_of nps),
              st_var_array = np_zeros (lengths_of nps), st_calls = []\<rparr> = Inr s'"
    unfolding a_def nps_def by blast
  have "\<exists>x T cov v u. fit_combination env a (product_lists nps ! k) = Inr (x, (T, cov)) \<and>
          cov00 cov = Inr v \<and>
          get_array_indexes (st_index \<lparr>st_index = 0, st_error_array = np_zeros (lengths_of nps),
              st_var_array = np_zeros (lengths_of nps), st_calls = []\<rparr> + int k) (lengths_of nps) = Inr u \<and>
          cells (st_error_array s') u = T \<and> cells (st_var_array s') u = v"
    using sweep_loop_cells[OF loop pos] kk ns lens
    by (simp add: np_zeros_def nps_def del: split_paired_Ex)
  then show ?thesis unfolding a_def nps_def by blast
qed

lemma append_each_length:
  "append_each f xs acc = Inr r \<Longrightarrow> length r = length acc + length xs"
proof (induction xs arbitrary: acc)
  case Nil
  then show ?case by simp
next
  case (Cons i xs)
  from Cons.prems obtain v where "append_each f xs (acc @ [v]) = Inr r"
    by (auto split: sum.splits)
  from Cons.IH[OF this] show ?case by simp
qed

lemma perfect_stab_circuit_lengths:
  "perfect_stab_circuit env n_cycles n_shots g T1 T2 = Inr (fid, time) \<Longrightarrow>
     length fid = length time"
  by (auto simp: perfect_stab_circuit_def Let_def split: sum.splits dest: append_each_length)

lemma scipy_curve_fit_shorter:
  assumes "length ydata = Suc (length xdata)"
  shows "\<exists>e. scipy_curve_fit env f xdata ydata p0 = Inl e"
  using assms by (auto simp: scipy_curve_fit_def Let_def)

lemma perfect_stab_fit_raises:
  assumes "\<not> arg_single_qubit a" "arg_perfect_stab a"
  shows "\<exists>e. fit_combination env a params = Inl e"
proof (cases "simulate env a params")
  case (Inl e)
  then show ?thesis
    by (auto simp: fit_combination_def fit_combination_logged_def simulate_def split: prod.splits)
next
  case (Inr ft)
  obtain fid time where ft: "ft = (fid, time)" by (cases ft)
  have "perfect_stab_circuit env (arg_n_cycles a) (arg_n_shots a) (make_gate_times params)
          (params ! 0) (params ! 1) = Inr (fid, time)"
    using Inr ft assms by (simp add: simulate_routes)
  from perfect_stab_circuit_lengths[OF this] have len: "length fid = length time" .
  show ?thesis
  proof (cases "tl fid = []")
    case True
    then have "scipy_curve_fit env monoExp (butlast (tl (map snd time))) (tl fid)
                 (params ! 0, 0, 9 / 10) = Inl ValueError"
      by (simp add: scipy_curve_fit_def)
    then show ?thesis using Inr ft
      by (auto simp: fit_combination_def fit_combination_logged_def simulate_def Let_def
          split: prod.splits)
  next
    case False
    then have "length (tl fid) = Suc (length (butlast (tl (map snd time))))"
      using len by (cases fid; cases time; cases "tl time") auto
    from scipy_curve_fit_shorter[OF this, of env monoExp "(params ! 0, 0, 9 / 10)"]
    obtain e where "scipy_curve_fit env monoExp (butlast (tl (map snd time))) (tl fid)
                 (params ! 0, 0, 9 / 10) = Inl e" ..
    then show ?thesis using Inr ft
      by (auto simp: fit_combination_def fit_combination_logged_def simulate_def Let_def
          split: prod.splits)
  qed
qed

lemma perfect_stab_route_raises:
  assumes "\<not> single_qubit" "perfect_stab"
    and "k < length (product_lists (noise_parameter_lists T1 T2 sq tq mt ft))"
    and "\<not> skip_case (product_lists (noise_parameter_lists T1 T2 sq tq mt ft) ! k)"
  shows "\<exists>e s. sweep_parameter_space env T1 T2 sq tq mt ft n_cycles n_shots single_qubit save
             perfect_stab kwargs = Inl (e, s)"
proof (cases "sweep_parameter_space env T1 T2 sq tq mt ft n_cycles n_shots single_qubit save
             perfect_stab kwargs")
  case (Inl x)
  then show ?thesis by (cases x) simp
next
  case (Inr s)
  from sweep_returned_fits[OF Inr assms(3,4)]
    perfect_stab_fit_raises[of "make_args n_cycles n_shots single_qubit perfect_stab kwargs" env
      "product_lists (noise_parameter_lists T1 T2 sq tq mt ft) ! k"] assms(1,2)
  show ?thesis by (auto simp: make_args_def)
qed

text \<open>
  Claim C1.  For every combination with \<open>T2 \<le> 2 T1\<close> that the loop reaches, the calls made
  while the counter has the combination's position are: one simulation, by the routine that
  the flags select and with the combination's \<open>T1\<close>, \<open>T2\<close> and gate times, followed, when
  that simulation gives fidelities with a time dictionary, by one call of \<^verbatim>\<open>curve_fit\<close>
  fitting \<open>monoExp\<close> to \<^verbatim>\<open>fid[1:]\<close> against \<^verbatim>\<open>list(time.values())[1:-1]\<close>.  The outcome of the
  simulation is the outcome of that routine.  When the function returns, the simulation of
  the combination gave such a pair and its fit gave three parameters.  With
  \<^verbatim>\<open>perfect_stab_circuit\<close> as the routine the function never returns: the time dictionary
  has no entry after the last snapshot, the fit gets one time less than fidelities, and
  \<^verbatim>\<open>curve_fit\<close> raises.
\<close>

theorem sweep_one_simulation_and_fit:
  assumes "r = sweep_parameter_space env T1 T2 single_qubit_gate_time two_qubit_gate_time
                 measure_time feedback_time n_cycles n_shots single_qubit save perfect_stab kwargs"
    and "noise_parameters = noise_parameter_lists T1 T2 single_qubit_gate_time
                              two_qubit_gate_time measure_time feedback_time"
    and "k < length (product_lists noise_parameters)"
    and "params = product_lists noise_parameters ! k"
    and "\<not> params ! 1 > 2 * params ! 0"
    and "loop_reached r k"
    and "a = make_args n_cycles n_shots single_qubit perfect_stab kwargs"
  shows "map snd (filter (\<lambda>e. fst e = int k) (st_calls (final_state r))) =
           Simulation (if single_qubit then Fid_single_qubit
                       else if perfect_stab then Perfect_stab_circuit
                       else Fidelity_from_scratch)
             n_cycles n_shots (params ! 0) (params ! 1) (make_gate_times params) #
           (case simulate env a params of
              Inl e \<Rightarrow> []
            | Inr (fid, time) \<Rightarrow>
                [Curve_fit_monoExp (butlast (tl (map snd time))) (tl fid) (params ! 0, 0, 9 / 10)]) \<and>
         simulate env a params =
           (if single_qubit then
              (case fid_single_qubit_routine env n_cycles n_shots (params ! 0) (params ! 1)
                      (make_gate_times params) kwargs of
                 Inl e \<Rightarrow> Inl e
               | Inr (fid, time) \<Rightarrow>
                   Inr (if py_eq_float (fst (theta_phi kwargs)) (pi / 2) \<and>
                           py_eq_float (snd (theta_phi kwargs)) (pi / 2)
                        then map (\<lambda>f. 2 * f - 1) fid else fid, time))
            else if perfect_stab then
              perfect_stab_circuit env n_cycles n_shots (make_gate_times params)
                (params ! 0) (params ! 1)
            else
              (case fidelity_from_scratch_routine env n_cycles n_shots (params ! 0) (params ! 1)
                      (make_gate_times params) kwargs of
                 Inl e \<Rightarrow> Inl e
               | Inr res \<Rightarrow> unpack_fid_time res)) \<and>
         ((\<exists>s. r = Inr s) \<longrightarrow>
            (\<exists>fid time T c A cov.
               simulate env a params = Inr (fid, time) \<and>
               scipy_curve_fit env monoExp (butlast (tl (map snd time))) (tl fid)
                 (params ! 0, 0, 9 / 10) = Inr ([T, c, A], cov))) \<and>
         (\<not> single_qubit \<and> perfect_stab \<longrightarrow> (\<exists>e s. r = Inl (e, s)))"
proof -
  let ?nps = "noise_parameter_lists T1 T2 single_qubit_gate_time two_qubit_gate_time
                measure_time feedback_time"
  let ?r = "sweep_parameter_space env T1 T2 single_qubit_gate_time two_qubit_gate_time
              measure_time feedback_time n_cycles n_shots single_qubit save perfect_stab kwargs"
  let ?a = "make_args n_cycles n_shots single_qubit perfect_stab kwargs"
  have k: "k < length (product_lists ?nps)" using assms(2,3) by simp
  have p: "params = product_lists ?nps ! k" using assms(2,4) by simp
  have ns: "\<not> skip_case params" using assms(5) by (simp add: skip_case_def)
  have reached: "loop_reached ?r k" using assms(1,6) by simp
  have "filter (\<lambda>e. fst e = int k) (st_calls (final_state ?r)) =
          map (Pair (int k)) (fst (fit_combination_logged env ?a params))"
    using sweep_trace[OF k, of env n_cycles n_shots single_qubit save perfect_stab kwargs]
      reached ns p
    by (simp add: combination_calls_def)
  then have "map snd (filter (\<lambda>e. fst e = int k) (st_calls (final_state ?r))) =
          fst (fit_combination_logged env ?a params)"
    by (simp add: comp_def)
  then have calls: "map snd (filter (\<lambda>e. fst e = int k) (st_calls (final_state r))) =
           Simulation (if single_qubit then Fid_single_qubit
                       else if perfect_stab then Perfect_stab_circuit
                       else Fidelity_from_scratch)
             n_cycles n_shots (params ! 0) (params ! 1) (make_gate_times params) #
           (case simulate env a params of
              Inl e \<Rightarrow> []
            | Inr (fid, time) \<Rightarrow>
                [Curve_fit_monoExp (butlast (tl (map snd time))) (tl fid) (params ! 0, 0, 9 / 10)])"
    unfolding assms(1,7) fit_combination_calls simulate_logged_call
    by (simp add: make_args_def)
  have routes: "simulate env a params =
           (if single_qubit then
              (case fid_single_qubit_routine env n_cycles n_shots (params ! 0) (params ! 1)
                      (make_gate_times params) kwargs of
                 Inl e \<Rightarrow> Inl e
               | Inr (fid, time) \<Rightarrow>
                   Inr (if py_eq_float (fst (theta_phi kwargs)) (pi / 2) \<and>
                           py_eq_float (snd (theta_phi kwargs)) (pi / 2)
                        then map (\<lambda>f. 2 * f - 1) fid else fid, time))
            else if perfect_stab then
              perfect_stab_circuit env n_cycles n_shots (make_gate_times params)
                (params ! 0) (params ! 1)
            else
              (case fidelity_from_scratch_routine env n_cycles n_shots (params ! 0) (params ! 1)
                      (make_gate_times params) kwargs of
                 Inl e \<Rightarrow> Inl e
               | Inr res \<Rightarrow> unpack_fid_time res))"
    unfolding assms(7) simulate_routes by (auto simp: make_args_def split: sum.splits prod.splits)
  have returned: "(\<exists>s. r = Inr s) \<longrightarrow>
            (\<exists>fid time T c A cov.
               simulate env a params = Inr (fid, time) \<and>
               scipy_curve_fit env monoExp (butlast (tl (map snd time))) (tl fid)
                 (params ! 0, 0, 9 / 10) = Inr ([T, c, A], cov))"
  proof
    assume "\<exists>s. r = Inr s"
    then obtain s where s: "?r = Inr s" using assms(1) by auto
    from sweep_returned_fits[OF s k] ns p obtain x T cov where
      f: "fit_combination env a params = Inr (x, (T, cov))" using assms(7) by auto
    then show "\<exists>fid time T c A cov.
               simulate env a params = Inr (fid, time) \<and>
               scipy_curve_fit env monoExp (butlast (tl (map snd time))) (tl fid)
                 (params ! 0, 0, 9 / 10) = Inr ([T, c, A], cov)"
      by (auto simp: fit_combination_def fit_combination_logged_def simulate_def Let_def
          split: prod.splits sum.splits list.splits)
  qed
  have stab: "\<not> single_qubit \<and> perfect_stab \<longrightarrow> (\<exists>e s. r = Inl (e, s))"
  proof
    assume f: "\<not> single_qubit \<and> perfect_stab"
    then have "\<not> single_qubit" "perfect_stab" by simp_all
    from perfect_stab_route_raises[OF this k, of env n_cycles n_shots save kwargs] ns p
    show "\<exists>e s. r = Inl (e, s)" using assms(1) by simp
  qed
  from calls routes returned stab show ?thesis by blast
qed

lemma example_single_qubit_runs:
  "\<exists>s. sweep_parameter_space example_env (Scalar 1) (Scalar 1) (Scalar 20) (Scalar 100)
          (Scalar 300) (Scalar 350) 3 1 True None False
          [''theta'' \<mapsto> PyFloat (pi / 2), ''phi'' \<mapsto> PyFloat (pi / 2)] = Inr s"
  by (simp add: sweep_parameter_space_def example_env_def sweep_step_def skip_case_def
      make_args_def theta_phi_def noise_parameter_lists_def lengths_of_def fit_combination_logged_def
      simulate_logged_def scipy_curve_fit_def get_array_indexes_def int64_range_def setitem_def np_zeros_def cov00_def
      normalize_index_def Let_def numeral_eq_Suc)

lemma example_one_product:
  "product_lists (noise_parameter_lists (Scalar 1) (Scalar 1) (Scalar 20) (Scalar 100)
     (Scalar 300) (Scalar 350)) = [[1, 1, 20, 100, 300, 350]]"
  by (simp add: noise_parameter_lists_def)

lemma example_perfect_stab_circuit:
  "perfect_stab_circuit example_env 3 1 (make_gate_times [1, 1, 20, 100, 300, 350]) 1 1 =
     Inr ([1, 1 / 2, 1 / 4, 1 / 8],
          [(''exp_0'', 0), (''exp_1'', 3310), (''exp_2'', 6620), (''exp_3'', 9930)])"
  by (simp add: perfect_stab_circuit_def example_env_def make_gate_times_def Let_def lookup_def
      str_nat.simps digit_char_def upt_conv_Cons)

lemma example_perfect_stab_raises:
  "\<exists>s. sweep_parameter_space example_env (Scalar 1) (Scalar 1) (Scalar 20) (Scalar 100)
          (Scalar 300) (Scalar 350) 3 1 False None True Map.empty = Inl (ValueError, s) \<and>
        st_index s = 0 \<and>
        map snd (st_calls s) =
          [Simulation Perfect_stab_circuit 3 1 1 1 (make_gate_times [1, 1, 20, 100, 300, 350]),
           Curve_fit_monoExp [3310, 6620] [1 / 2, 1 / 4, 1 / 8] (1, 0, 9 / 10)]"
  by (simp add: sweep_parameter_space_def sweep_step_def skip_case_def
      make_args_def theta_phi_def noise_parameter_lists_def lengths_of_def fit_combination_logged_def
      simulate_logged_def scipy_curve_fit_def example_perfect_stab_circuit np_zeros_def Let_def)

lemma example_post_select_raises:
  "\<exists>s. sweep_parameter_space post_select_env (Scalar 1) (Scalar 1) (Scalar 20) (Scalar 100)
          (Scalar 300) (Scalar 350) 3 1 False None False Map.empty = Inl (AttributeError, s) \<and>
        st_index s = 0 \<and>
        map snd (st_calls s) =
          [Simulation Fidelity_from_scratch 3 1 1 1 (make_gate_times [1, 1, 20, 100, 300, 350])]"
  by (simp add: sweep_parameter_space_def sweep_step_def skip_case_def post_select_env_def
      example_env_def
      make_args_def theta_phi_def noise_parameter_lists_def lengths_of_def fit_combination_logged_def
      simulate_logged_def np_zeros_def Let_def)

theorem sweep_one_simulation_and_fit_witness:
  "map snd (filter (\<lambda>e. fst e = 3) (st_calls (final_state
      (sweep_parameter_space example_env (ParamList [1, 2]) (ParamList [1, 3]) (Scalar 20)
         (Scalar 100) (Scalar 300) (Scalar 350) 3 1 False None False Map.empty)))) =
     [Simulation Fidelity_from_scratch 3 1 2 3 (make_gate_times [2, 3, 20, 100, 300, 350]),
      Curve_fit_monoExp [1, 2, 3] [2, 3, 0] (2, 0, 9 / 10)] \<and>
   scipy_curve_fit example_env monoExp [1, 2, 3] [2, 3, 0] (2, 0, 9 / 10) =
     Inr ([7, 0, 9 / 10], [[6, 0, 0], [0, 1, 0], [0, 0, 1]]) \<and>
   map snd (filter (\<lambda>e. fst e = 0) (st_calls (final_state
      (sweep_parameter_space example_env (Scalar 1) (Scalar 1) (Scalar 20) (Scalar 100)
         (Scalar 300) (Scalar 350) 3 1 True None False
         [''theta'' \<mapsto> PyFloat (pi / 2), ''phi'' \<mapsto> PyFloat (pi / 2)])))) =
     [Simulation Fid_single_qubit 3 1 1 1 (make_gate_times [1, 1, 20, 100, 300, 350]),
      Curve_fit_monoExp [1, 2, 3] [0, - 1 / 2, - 3 / 4] (1, 0, 9 / 10)] \<and>
   map snd (filter (\<lambda>e. fst e = 0) (st_calls (final_state
      (sweep_parameter_space example_env (Scalar 1) (Scalar 1) (Scalar 20) (Scalar 100)
         (Scalar 300) (Scalar 350) 3 1 False None True Map.empty)))) =
     [Simulation Perfect_stab_circuit 3 1 1 1 (make_gate_times [1, 1, 20, 100, 300, 350]),
      Curve_fit_monoExp [3310, 6620] [1 / 2, 1 / 4, 1 / 8] (1, 0, 9 / 10)] \<and>
   (\<exists>e s. sweep_parameter_space example_env (Scalar 1) (Scalar 1) (Scalar 20) (Scalar 100)
         (Scalar 300) (Scalar 350) 3 1 False None True Map.empty = Inl (e, s)) \<and>
   map snd (filter (\<lambda>e. fst e = 0) (st_calls (final_state
      (sweep_parameter_space post_select_env (Scalar 1) (Scalar 1) (Scalar 20) (Scalar 100)
         (Scalar 300) (Scalar 350) 3 1 False None False Map.empty)))) =
     [Simulation Fidelity_from_scratch 3 1 1 1 (make_gate_times [1, 1, 20, 100, 300, 350])]"
proof -
  let ?nps = "noise_parameter_lists (ParamList [1, 2]) (ParamList [1, 3]) (Scalar 20)
                (Scalar 100) (Scalar 300) (Scalar 350)"
  let ?one = "noise_parameter_lists (Scalar 1) (Scalar 1) (Scalar 20) (Scalar 100)
                (Scalar 300) (Scalar 350)"
  let ?p = "[2, 3, 20, 100, 300, 350] :: real list"
  let ?q = "[1, 1, 20, 100, 300, 350] :: real list"
  let ?rA = "sweep_parameter_space example_env (ParamList [1, 2]) (ParamList [1, 3]) (Scalar 20)
               (Scalar 100) (Scalar 300) (Scalar 350) 3 1 False None False Map.empty"
  let ?rB = "sweep_parameter_space example_env (Scalar 1) (Scalar 1) (Scalar 20) (Scalar 100)
               (Scalar 300) (Scalar 350) 3 1 True None False
               [''theta'' \<mapsto> PyFloat (pi / 2), ''phi'' \<mapsto> PyFloat (pi / 2)]"
  let ?rC = "sweep_parameter_space example_env (Scalar 1) (Scalar 1) (Scalar 20) (Scalar 100)
               (Scalar 300) (Scalar 350) 3 1 False None True Map.empty"
  let ?rD = "sweep_parameter_space post_select_env (Scalar 1) (Scalar 1) (Scalar 20) (Scalar 100)
               (Scalar 300) (Scalar 350) 3 1 False None False Map.empty"
  have kA: "3 < length (product_lists ?nps)" by (simp add: example_products)
  have pA: "?p = product_lists ?nps ! 3" by (simp add: example_products)
  have nsA: "\<not> ?p ! 1 > 2 * ?p ! 0" by simp
  have retA: "\<exists>s. ?rA = Inr s" by (rule example_sweep_runs)
  then have lrA: "loop_reached ?rA 3" by (auto simp: loop_reached_def)
  note A = sweep_one_simulation_and_fit[OF refl refl kA pA nsA lrA refl]
  have simA: "simulate example_env (make_args 3 1 False False Map.empty) ?p =
                Inr ([1, 2, 3, 0],
                     [(''dm_0'', 0), (''dm_1'', 1), (''dm_2'', 2), (''dm_3'', 3), (''end'', 4)])"
    by (simp add: simulate_def simulate_logged_def example_env_def make_args_def)
  have callsA: "map snd (filter (\<lambda>e. fst e = 3) (st_calls (final_state ?rA))) =
     [Simulation Fidelity_from_scratch 3 1 2 3 (make_gate_times ?p),
      Curve_fit_monoExp [1, 2, 3] [2, 3, 0] (2, 0, 9 / 10)]"
    using A by (simp add: simA)
  from A retA obtain T c A' cov where
    "scipy_curve_fit example_env monoExp [1, 2, 3] [2, 3, 0] (2, 0, 9 / 10) = Inr ([T, c, A'], cov)"
    by (auto simp: simA)
  then have fitA: "scipy_curve_fit example_env monoExp [1, 2, 3] [2, 3, 0] (2, 0, 9 / 10) =
     Inr ([7, 0, 9 / 10], [[6, 0, 0], [0, 1, 0], [0, 0, 1]])"
    by (simp add: scipy_curve_fit_def example_env_def)
  have k0: "0 < length (product_lists ?one)" by (simp add: example_one_product)
  have p0: "?q = product_lists ?one ! 0" by (simp add: example_one_product)
  have ns0: "\<not> ?q ! 1 > 2 * ?q ! 0" by simp
  have lrB: "loop_reached ?rB 0" using example_single_qubit_runs by (auto simp: loop_reached_def)
  note B = sweep_one_simulation_and_fit[OF refl refl k0 p0 ns0 lrB refl]
  have simB: "simulate example_env (make_args 3 1 True False
                 [''theta'' \<mapsto> PyFloat (pi / 2), ''phi'' \<mapsto> PyFloat (pi / 2)]) ?q =
                Inr ([1, 0, - 1 / 2, - 3 / 4],
                     [(''start'', 0), (''snap_1'', 1), (''snap_2'', 2), (''snap_3'', 3), (''end'', 4)])"
    by (simp add: simulate_def simulate_logged_def example_env_def make_args_def theta_phi_def)
  have callsB: "map snd (filter (\<lambda>e. fst e = 0) (st_calls (final_state ?rB))) =
     [Simulation Fid_single_qubit 3 1 1 1 (make_gate_times ?q),
      Curve_fit_monoExp [1, 2, 3] [0, - 1 / 2, - 3 / 4] (1, 0, 9 / 10)]"
    using B by (simp add: simB)
  have lrC: "loop_reached ?rC 0" using example_perfect_stab_raises by (auto simp: loop_reached_def)
  note C = sweep_one_simulation_and_fit[OF refl refl k0 p0 ns0 lrC refl]
  have simC: "simulate example_env (make_args 3 1 False True Map.empty) ?q =
                Inr ([1, 1 / 2, 1 / 4, 1 / 8],
                     [(''exp_0'', 0), (''exp_1'', 3310), (''exp_2'', 6620), (''exp_3'', 9930)])"
    by (simp add: simulate_def simulate_logged_def make_args_def example_perfect_stab_circuit)
  have callsC: "map snd (filter (\<lambda>e. fst e = 0) (st_calls (final_state ?rC))) =
     [Simulation Perfect_stab_circuit 3 1 1 1 (make_gate_times ?q),
      Curve_fit_monoExp [3310, 6620] [1 / 2, 1 / 4, 1 / 8] (1, 0, 9 / 10)]"
    using C by (simp add: simC)
  have raisesC: "\<exists>e s. ?rC = Inl (e, s)" using C by simp
  have lrD: "loop_reached ?rD 0" using example_post_select_raises by (auto simp: loop_reached_def)
  note D = sweep_one_simulation_and_fit[OF refl refl k0 p0 ns0 lrD refl]
  have simD: "simulate post_select_env (make_args 3 1 False False Map.empty) ?q = Inl AttributeError"
    by (simp add: simulate_def simulate_logged_def make_args_def post_select_env_def example_env_def)
  have callsD: "map snd (filter (\<lambda>e. fst e = 0) (st_calls (final_state ?rD))) =
     [Simulation Fidelity_from_scratch 3 1 1 1 (make_gate_times ?q)]"
    using D by (simp add: simD)
  from callsA fitA callsB callsC raisesC callsD show ?thesis by (intro conjI)
qed

text \<open>
  The statement does not hold for every combination of the product.  With \<open>T1 = 1\<close> and
  \<open>T2 = 3\<close> the product has one combination and the function returns without any call.  When
  \<^verbatim>\<open>fidelity_from_scratch\<close> returns fidelities with post-selection counts, the combination
  is simulated and \<^verbatim>\<open>list(time.values())\<close> raises before any fit.  With
  \<^verbatim>\<open>perfect_stab=True\<close> the call of \<^verbatim>\<open>curve_fit\<close> gets two times and three fidelities and
  raises.
\<close>

theorem sweep_every_combination_counterexample:
  "product_lists (noise_parameter_lists (Scalar 1) (Scalar 3) (Scalar 20) (Scalar 100)
     (Scalar 300) (Scalar 350)) = [[1, 3, 20, 100, 300, 350]] \<and>
   (\<exists>s. sweep_parameter_space example_env (Scalar 1) (Scalar 3) (Scalar 20)
          (Scalar 100) (Scalar 300) (Scalar 350) 3 1 False None False Map.empty = Inr s \<and>
        st_calls s = []) \<and>
   product_lists (noise_parameter_lists (Scalar 1) (Scalar 1) (Scalar 20) (Scalar 100)
     (Scalar 300) (Scalar 350)) = [[1, 1, 20, 100, 300, 350]] \<and>
   (\<exists>s. sweep_parameter_space post_select_env (Scalar 1) (Scalar 1) (Scalar 20) (Scalar 100)
          (Scalar 300) (Scalar 350) 3 1 False None False Map.empty = Inl (AttributeError, s) \<and>
        st_index s = 0 \<and>
        map snd (st_calls s) =
          [Simulation Fidelity_from_scratch 3 1 1 1 (make_gate_times [1, 1, 20, 100, 300, 350])]) \<and>
   (\<exists>s. sweep_parameter_space example_env (Scalar 1) (Scalar 1) (Scalar 20) (Scalar 100)
          (Scalar 300) (Scalar 350) 3 1 False None True Map.empty = Inl (ValueError, s) \<and>
        st_index s = 0 \<and>
        map snd (st_calls s) =
          [Simulation Perfect_stab_circuit 3 1 1 1 (make_gate_times [1, 1, 20, 100, 300, 350]),
           Curve_fit_monoExp [3310, 6620] [1 / 2, 1 / 4, 1 / 8] (1, 0, 9 / 10)])"
proof -
  have skip: "\<exists>s. sweep_parameter_space example_env (Scalar 1) (Scalar 3) (Scalar 20)
          (Scalar 100) (Scalar 300) (Scalar 350) 3 1 False None False Map.empty = Inr s \<and>
        st_calls s = []"
    by (simp add: sweep_parameter_space_def sweep_step_def skip_case_def
      make_args_def theta_phi_def noise_parameter_lists_def lengths_of_def np_zeros_def Let_def)
  have prod: "product_lists (noise_parameter_lists (Scalar 1) (Scalar 3) (Scalar 20) (Scalar 100)
     (Scalar 300) (Scalar 350)) = [[1, 3, 20, 100, 300, 350]]"
    by (simp add: noise_parameter_lists_def)
  from prod skip example_one_product example_post_select_raises example_perfect_stab_raises
  show ?thesis by (intro conjI)
qed

section \<open>Properties of \<open>fid_single_qubit\<close> and \<open>fidelity_from_scratch\<close>\<close>

lemma append_each_result:
  "append_each f xs acc = Inr r \<Longrightarrow> \<exists>ys. r = acc @ ys \<and> length ys = length xs"
proof (induction xs arbitrary: acc)
  case Nil
  then show ?case by simp
next
  case (Cons i xs)
  from Cons.prems obtain v where v: "f i = Inr v" and rest: "append_each f xs (acc @ [v]) = Inr r"
    by (auto split: sum.splits)
  from Cons.IH[OF rest] obtain ys where "r = (acc @ [v]) @ ys" "length ys = length xs" by blast
  then have "r = acc @ (v # ys) \<and> length (v # ys) = length (i # xs)" by simp
  then show ?case by blast
qed

lemma append_each_map:
  "\<forall>i\<in>set xs. f i = Inr (g i) \<Longrightarrow> append_each f xs acc = Inr (acc @ map g xs)"
  by (induction xs arbitrary: acc) simp_all

lemma single_qubit_fidelities_head:
  assumes "single_qubit_fidelities env results snapshot_type tm = Inr (fidelities, time)"
  shows "\<exists>ys. fidelities = Float 1 # ys"
proof (cases "is_dm snapshot_type")
  case True
  with assms obtain f where "append_each f [0..<length tm - 2] [Float 1] = Inr fidelities"
    by (auto simp: single_qubit_fidelities_def split: sum.splits)
  from append_each_result[OF this] show ?thesis by auto
next
  case False
  show ?thesis
  proof (cases "is_exp snapshot_type")
    case True
    with assms False obtain f where "append_each f [0..<length tm - 2] [Float 1] = Inr fidelities"
      by (auto simp: single_qubit_fidelities_def split: sum.splits)
    from append_each_result[OF this] show ?thesis by auto
  next
    case F2: False
    with assms False show ?thesis by (auto simp: single_qubit_fidelities_def)
  qed
qed

text \<open>
  Claim C8.  For every \<open>n_cycles\<close> and \<open>n_shots\<close> (and every other argument), whenever
  \<open>fid_single_qubit\<close> returns, its fidelity list is not empty and its first element is
  \<open>1.0\<close>, the fidelity at time 0.
\<close>

theorem fid_single_qubit_starts_at_one:
  assumes "snd (fid_single_qubit env n_cycles n_shots gate_times snapshot_type T1 T2 theta phi
                  pauliop kwargs) = Inr (fidelities, time)"
  shows "fidelities \<noteq> [] \<and> hd fidelities = Float 1"
proof -
  from assms obtain results tm where
    "single_qubit_fidelities env results snapshot_type tm = Inr (fidelities, time)"
    by (auto simp: fid_single_qubit_def Let_def split: prod.splits sum.splits)
  from single_qubit_fidelities_head[OF this] show ?thesis by auto
qed

theorem fid_single_qubit_starts_at_one_witness:
  "snd (fid_single_qubit example_qiskit_env 2 1 (GT_dict []) ''dm'' 40000 60000 0 0 ''Z'' Map.empty)
     = Inr ([Float 1, Float (1 / 2), Float (1 / 3)], example_time) \<and>
   hd [Float 1, Float (1 / 2), Float (1 / 3 :: real)] = (Float 1 :: nat pyvalue)"
proof -
  have e: "snd (fid_single_qubit example_qiskit_env 2 1 (GT_dict []) ''dm'' 40000 60000 0 0 ''Z''
             Map.empty) = Inr ([Float 1, Float (1 / 2), Float (1 / 3)], example_time)"
    by (simp add: fid_single_qubit_def full_gate_times_of_def example_qiskit_env_def Let_def
        single_qubit_fidelities_def is_dm_def lookup_def example_results_def example_time_def
        str_nat.simps digit_char_def upt_conv_Cons)
  from fid_single_qubit_starts_at_one[OF e] e show ?thesis by simp
qed

lemma runs_ignore_gate_times_arg:
  "empty_circuit_run env n_cycles n_shots (a\<lparr>ffs_gate_times := g\<rparr>) = empty_circuit_run env n_cycles n_shots a"
  "noisy_run env n_cycles n_shots (a\<lparr>ffs_gate_times := g\<rparr>) = noisy_run env n_cycles n_shots a"
  "build_circuit env n_cycles (a\<lparr>ffs_gate_times := g\<rparr>) = build_circuit env n_cycles a"
  by (simp_all add: empty_circuit_run_def noisy_run_def build_circuit_def process_results_def fun_eq_iff
      cong: sum.case_cong prod.case_cong option.case_cong if_cong)

lemma noisy_run_fallback:
  assumes "set_option_raises env ''method'' (ffs_simulator_type a)"
    and "\<not> set_option_raises env ''method'' ''density_matrix''"
  shows "\<exists>post. fst (noisy_run env n_cycles n_shots a full_gate_times noise_model circ trivial) =
           [Print ''Invalid simulator type, defaulting to density_matrix'',
            Set_option ''method'' ''density_matrix'', Executed n_shots] @ post"
  using assms
  by (auto simp: noisy_run_def set_method_def Let_def split: prod.splits sum.splits)

text \<open>
  Claim C5.  When \<open>gate_times\<close> is neither a dict nor a \<open>GateTimes\<close> object,
  \<open>fidelity_from_scratch\<close> issues the warning and then does exactly what it does when it
  is given the default \<open>WACQT_gate_times\<close> object: it does not raise on the argument.
  When the method is set (the circuit is not the empty one) and
  \<open>set_option('method', simulator_type)\<close> raises, the function prints its warning, sets the
  method \<open>'density_matrix'\<close> (that call succeeding) and goes on to execute the circuit.
\<close>

theorem fidelity_from_scratch_fallbacks:
  "(ffs_gate_times a = GT_other \<longrightarrow>
      fidelity_from_scratch env n_cycles n_shots a =
        (Warn ''Invalid gate times, assuming WACQT_gate_times'' #
           fst (fidelity_from_scratch env n_cycles n_shots
                  (a\<lparr>ffs_gate_times := GT_object (WACQT_gate_times env)\<rparr>)),
         snd (fidelity_from_scratch env n_cycles n_shots
                (a\<lparr>ffs_gate_times := GT_object (WACQT_gate_times env)\<rparr>)))) \<and>
   (ffs_data_process_type a \<noteq> ''empty_circuit'' \<and>
    set_option_raises env ''method'' (ffs_simulator_type a) \<and>
    \<not> set_option_raises env ''method'' ''density_matrix'' \<longrightarrow>
      (\<exists>post. fst (fidelity_from_scratch env n_cycles n_shots a) =
         snd (full_gate_times_of env (ffs_gate_times a)) @
         [Print ''Invalid simulator type, defaulting to density_matrix'',
          Set_option ''method'' ''density_matrix'', Executed n_shots] @ post))"
proof (intro conjI impI)
  assume g: "ffs_gate_times a = GT_other"
  show "fidelity_from_scratch env n_cycles n_shots a =
        (Warn ''Invalid gate times, assuming WACQT_gate_times'' #
           fst (fidelity_from_scratch env n_cycles n_shots
                  (a\<lparr>ffs_gate_times := GT_object (WACQT_gate_times env)\<rparr>)),
         snd (fidelity_from_scratch env n_cycles n_shots
                (a\<lparr>ffs_gate_times := GT_object (WACQT_gate_times env)\<rparr>)))"
    using g
    by (simp add: fidelity_from_scratch_def full_gate_times_of_def runs_ignore_gate_times_arg
        Let_def split: prod.splits)
next
  assume h: "ffs_data_process_type a \<noteq> ''empty_circuit'' \<and>
    set_option_raises env ''method'' (ffs_simulator_type a) \<and>
    \<not> set_option_raises env ''method'' ''density_matrix''"
  obtain full_gate_times warned where f: "full_gate_times_of env (ffs_gate_times a) = (full_gate_times, warned)"
    by (cases "full_gate_times_of env (ffs_gate_times a)")
  from noisy_run_fallback[of env a n_cycles n_shots full_gate_times
      "thermal_relaxation_model_V2 env (ffs_T1 a) (ffs_T2 a) full_gate_times"
      "build_circuit env n_cycles a" "get_encoded_state env (ffs_theta a) (ffs_phi a)"] h
  obtain post where "fst (noisy_run env n_cycles n_shots a full_gate_times
      (thermal_relaxation_model_V2 env (ffs_T1 a) (ffs_T2 a) full_gate_times)
      (build_circuit env n_cycles a) (get_encoded_state env (ffs_theta a) (ffs_phi a))) =
           [Print ''Invalid simulator type, defaulting to density_matrix'',
            Set_option ''method'' ''density_matrix'', Executed n_shots] @ post"
    by blast
  then have "fst (fidelity_from_scratch env n_cycles n_shots a) =
         snd (full_gate_times_of env (ffs_gate_times a)) @
         [Print ''Invalid simulator type, defaulting to density_matrix'',
          Set_option ''method'' ''density_matrix'', Executed n_shots] @ post"
    using h f by (auto simp: fidelity_from_scratch_def Let_def split: prod.splits)
  then show "\<exists>post. fst (fidelity_from_scratch env n_cycles n_shots a) =
         snd (full_gate_times_of env (ffs_gate_times a)) @
         [Print ''Invalid simulator type, defaulting to density_matrix'',
          Set_option ''method'' ''density_matrix'', Executed n_shots] @ post" by blast
qed

lemma example_default_run:
  "fidelity_from_scratch example_qiskit_env 2 1
     ((default_args example_qiskit_env)\<lparr>ffs_gate_times := GT_object (WACQT_gate_times example_qiskit_env),
        ffs_simulator_type := ''stabilizer''\<rparr>) =
   ([Print ''Invalid simulator type, defaulting to density_matrix'',
     Set_option ''method'' ''density_matrix'', Executed 1],
    Inr (Return_fid_time [Float 1, Float (1 / 2), Float (1 / 3)] example_time))"
  by (simp add: fidelity_from_scratch_def full_gate_times_of_def example_qiskit_env_def Let_def
      default_args_def noisy_run_def set_method_def process_results_def snapshot_fidelities_def
      is_dm_def lookup_def example_results_def build_circuit_def recovery_conditional_def
      str_nat.simps digit_char_def upt_conv_Cons)

theorem fidelity_from_scratch_fallbacks_witness:
  "fidelity_from_scratch example_qiskit_env 2 1
     ((default_args example_qiskit_env)\<lparr>ffs_gate_times := GT_other,
        ffs_simulator_type := ''stabilizer''\<rparr>) =
   ([Warn ''Invalid gate times, assuming WACQT_gate_times'',
     Print ''Invalid simulator type, defaulting to density_matrix'',
     Set_option ''method'' ''density_matrix'', Executed 1],
    Inr (Return_fid_time [Float 1, Float (1 / 2), Float (1 / 3)] example_time)) \<and>
   set_option_raises example_qiskit_env ''method'' ''stabilizer'' \<and>
   \<not> set_option_raises example_qiskit_env ''method'' ''density_matrix''"
proof -
  let ?a = "(default_args example_qiskit_env)\<lparr>ffs_gate_times := GT_other,
        ffs_simulator_type := ''stabilizer''\<rparr>"
  have g: "ffs_gate_times ?a = GT_other" by simp
  have u: "?a\<lparr>ffs_gate_times := GT_object (WACQT_gate_times example_qiskit_env)\<rparr> =
           (default_args example_qiskit_env)\<lparr>ffs_gate_times := GT_object (WACQT_gate_times example_qiskit_env),
              ffs_simulator_type := ''stabilizer''\<rparr>" by simp
  have r: "set_option_raises example_qiskit_env ''method'' ''stabilizer''"
    "\<not> set_option_raises example_qiskit_env ''method'' ''density_matrix''"
    by (simp_all add: example_qiskit_env_def)
  from fidelity_from_scratch_fallbacks[of ?a example_qiskit_env 2 1] g
  have "fidelity_from_scratch example_qiskit_env 2 1 ?a =
        (Warn ''Invalid gate times, assuming WACQT_gate_times'' #
           fst (fidelity_from_scratch example_qiskit_env 2 1
                  (?a\<lparr>ffs_gate_times := GT_object (WACQT_gate_times example_qiskit_env)\<rparr>)),
         snd (fidelity_from_scratch example_qiskit_env 2 1
                (?a\<lparr>ffs_gate_times := GT_object (WACQT_gate_times example_qiskit_env)\<rparr>)))"
    by blast
  then show ?thesis unfolding u example_default_run using r by simp
qed

text \<open>
  With idle noise on, recovery and density-matrix snapshots, the function returns the pair:
  \<open>n_cycles + 1\<close> fidelities, the one for cycle \<open>k\<close> being the state fidelity between the
  snapshot \<open>dm_k\<close> and \<open>get_encoded_state(theta, phi)\<close>.  With idle noise off it never
  returns a pair.
\<close>

lemma snapshot_fidelities_dm:
  assumes "is_dm snapshot_type"
    and "\<forall>k<nat (n_cycles + 1). res_data results (''dm_'' @ str_nat k) = Some (state k)"
  shows "snapshot_fidelities env results snapshot_type n_cycles trivial =
           Inr (map (\<lambda>k. Float (state_fidelity env (state k) (Quantum trivial))) [0..<nat (n_cycles + 1)])"
proof -
  have "append_each
          (\<lambda>current_cycle.
             case lookup (res_data results) (''dm_'' @ str_nat current_cycle) of
               Inl e \<Rightarrow> Inl e
             | Inr state \<Rightarrow> Inr (Float (state_fidelity env state (Quantum trivial))))
          [0..<nat (n_cycles + 1)] [] =
        Inr ([] @ map (\<lambda>k. Float (state_fidelity env (state k) (Quantum trivial))) [0..<nat (n_cycles + 1)])"
    by (rule append_each_map) (use assms(2) in \<open>simp add: lookup_def\<close>)
  then show ?thesis using assms(1) by (simp add: snapshot_fidelities_def)
qed

lemma fidelity_from_scratch_recovery_dm:
  assumes "ffs_data_process_type a = ''recovery''" and "ffs_snapshot_type a = ''dm''"
    and "ffs_idle_noise a"
    and "\<not> set_option_raises env ''method'' (ffs_simulator_type a) \<or>
         \<not> set_option_raises env ''method'' ''density_matrix''"
    and "\<forall>circ noise_model. execute env circ noise_model n_shots = Inr results"
    and "\<forall>k<nat (n_cycles + 1). res_data results (''dm_'' @ str_nat k) = Some (state k)"
  shows "\<exists>time. snd (fidelity_from_scratch env n_cycles n_shots a) =
           Inr (Return_fid_time
                  (map (\<lambda>k. Float (state_fidelity env (state k)
                                     (Quantum (get_encoded_state env (ffs_theta a) (ffs_phi a)))))
                     [0..<nat (n_cycles + 1)])
                  time)"
proof -
  have dm: "is_dm (ffs_snapshot_type a)" using assms(2) by (simp add: is_dm_def)
  note sf = snapshot_fidelities_dm[OF dm assms(6), of env]
  show ?thesis
    using assms(1,3,4,5) sf
    by (auto simp: fidelity_from_scratch_def noisy_run_def set_method_def process_results_def
        Let_def split: prod.splits)
qed

lemma fidelity_from_scratch_without_idle_noise:
  assumes "ffs_data_process_type a = ''recovery'' \<or> ffs_data_process_type a = ''none''"
    and "\<not> ffs_idle_noise a"
  shows "\<forall>fidelities time. snd (fidelity_from_scratch env n_cycles n_shots a)
           \<noteq> Inr (Return_fid_time fidelities time)"
  using assms
  by (auto simp: fidelity_from_scratch_def noisy_run_def process_results_def
      Let_def split: prod.splits sum.splits option.splits)

text \<open>
  Claim C6 at \<open>idle_noise = False\<close>, all other arguments at their defaults: the circuit is
  executed, the fidelities are computed, and \<^verbatim>\<open>return fidelities, time\<close> raises
  UnboundLocalError, because \<^verbatim>\<open>time\<close> is assigned only under \<^verbatim>\<open>if idle_noise\<close>.
\<close>

theorem fidelity_from_scratch_idle_noise_off:
  "fidelity_from_scratch example_qiskit_env 2 1
     ((default_args example_qiskit_env)\<lparr>ffs_idle_noise := False\<rparr>) =
   ([Set_option ''method'' ''density_matrix'', Executed 1], Inl UnboundLocalError)"
  by (simp add: fidelity_from_scratch_def full_gate_times_of_def example_qiskit_env_def Let_def
      default_args_def noisy_run_def set_method_def process_results_def snapshot_fidelities_def
      is_dm_def lookup_def example_results_def build_circuit_def recovery_conditional_def
      str_nat.simps digit_char_def upt_conv_Cons)

end
